theory Spec2Isabelle
  imports Main "HOL-Library.Product_Lexorder"
begin

section \<open>Task dispatch and delivery tracking: a shallow embedding\<close>

text \<open>
  The definitions follow the TypeScript sources of the repository: the MobZap service
  (\<^verbatim>\<open>src/services/mobzap.service.ts\<close>), the task controller
  (\<^verbatim>\<open>src/controllers/task.controller.ts\<close>), the queue service
  (\<^verbatim>\<open>src/services/queue.service.ts\<close>), the socket server and the webhook service.
  Database tables are lists of rows in insertion order; a point in time is an integer
  (milliseconds); an absent or \<^verbatim>\<open>undefined\<close> JavaScript value is \<open>None\<close>.
  Every handler takes the store and returns it as the call leaves it, with what the call
  answers or throws. One call reads one clock value, \<open>now\<close>, for all its \<^verbatim>\<open>new Date()\<close>;
  the uuid that the database would generate for a created row is the parameter \<open>fresh\<close>;
  the outcome of an HTTP post or of the transport call is a parameter as well, and so is
  every choice the database makes where the query leaves one open: which matching row a
  \<^verbatim>\<open>findFirst\<close> returns (\<open>pick\<close>) and in which order rows equal under \<^verbatim>\<open>orderBy\<close> come
  (\<open>tie\<close>).
\<close>

subsection \<open>JavaScript helpers\<close>

type_synonym time = int

text \<open>The regular expression class \<^verbatim>\<open>\D\<close> matches every character that is not one of 0..9.\<close>

definition isDigit :: "char \<Rightarrow> bool" where
  "isDigit c = (c \<in> set ''0123456789'')"

text \<open>\<^verbatim>\<open>String.prototype.startsWith\<close>.\<close>

definition startsWith :: "string \<Rightarrow> string \<Rightarrow> bool" where
  "startsWith s p = (take (length p) s = p)"

subsection \<open>MobZapService.formatPhoneNumber\<close>

text \<open>
  \<^verbatim>\<open>
  let cleaned = phone.replace(/\D/g, '');
  if (!cleaned.startsWith('55')) { cleaned = '55' + cleaned; }
  return cleaned;
  \<close>
\<close>

definition formatPhoneNumber :: "string \<Rightarrow> string" where
  "formatPhoneNumber phone =
     (let cleaned = filter isDigit phone
      in if \<not> startsWith cleaned ''55'' then ''55'' @ cleaned else cleaned)"

subsection \<open>Data model (Prisma schema)\<close>

datatype TaskType =
  MESSAGE | MEDIA | GROUP_JOIN | GROUP_LEAVE | GROUP_MESSAGE | BULK_MESSAGE | SCHEDULED_MESSAGE

datatype TaskStatus = PENDING | PROCESSING | COMPLETED | FAILED | CANCELLED

datatype MessageType = TEXT | IMAGE | VIDEO | AUDIO | DOCUMENT | LOCATION | CONTACT | STICKER

text \<open>
  \<^verbatim>\<open>enum MessageStatus { PENDING SENT DELIVERED READ FAILED }\<close>; the two names shared with
  \<open>TaskStatus\<close> carry the prefix \<open>MSG_\<close>.
\<close>

datatype MessageStatus = MSG_PENDING | SENT | DELIVERED | READ | MSG_FAILED

datatype MessageDirection = INCOMING | OUTGOING

datatype DeviceType = NORMAL | BUSINESS

datatype DeviceStatus = ACTIVE | INACTIVE | BANNED | DISCONNECTED

text \<open>A JSON value that the code only stores and passes on is kept as its serialised text.\<close>

type_synonym json = string

text \<open>
  A JSON value, as the code meets it where the type is \<^verbatim>\<open>any\<close>: nothing but
  \<^verbatim>\<open>isObject\<close> is checked of a task's \<^verbatim>\<open>data\<close>, so each of its fields may hold a value
  of any shape.
\<close>

datatype jv = JNull | JBool bool | JNum int | JStr string | JArr "jv list"
  | JObj "(string \<times> jv) list"

text \<open>
  The \<^verbatim>\<open>data\<close> column of a task (\<^verbatim>\<open>Json\<close>, read as \<^verbatim>\<open>any\<close>): the object's fields the
  code reads, each absent (\<open>None\<close>, read as \<^verbatim>\<open>undefined\<close>) or present with some JSON value.
  A \<^verbatim>\<open>data\<close> that is a number, a string or an array has none of these fields and reads
  like the empty object.
\<close>

record TaskData =
  d_phoneNumber :: "jv option"
  d_message :: "jv option"
  d_mediaUrl :: "jv option"
  d_mediaType :: "jv option"
  d_caption :: "jv option"
  d_inviteLink :: "jv option"
  d_welcomeMessage :: "jv option"
  d_groupId :: "jv option"
  d_phoneNumbers :: "jv option"
  d_delay :: "jv option"

record Task =
  t_id :: string
  t_userId :: string
  t_deviceId :: "string option"
  t_type :: TaskType
  t_status :: TaskStatus
  t_priority :: int
  t_scheduledAt :: "time option"
  t_executedAt :: "time option"
  t_completedAt :: "time option"
  t_retryCount :: int
  t_maxRetries :: int
  t_data :: TaskData
  t_result :: "json option"
  t_error :: "string option"
  t_createdAt :: time
  t_updatedAt :: time

text \<open>\<^verbatim>\<open>metadata: { messageId, ...result }\<close> is kept as the pair of its two sources.\<close>

record Message =
  m_id :: string
  m_userId :: string
  m_deviceId :: string
  m_taskId :: "string option"
  m_phoneNumber :: string
  m_messageType :: MessageType
  m_content :: "string option"
  m_mediaUrl :: "string option"
  m_mediaType :: "string option"
  m_status :: MessageStatus
  m_direction :: MessageDirection
  m_isRead :: bool
  m_deliveredAt :: "time option"
  m_readAt :: "time option"
  m_error :: "string option"
  m_metadata :: "(string option \<times> json option) option"
  m_createdAt :: time
  m_updatedAt :: time

record Webhook =
  w_id :: string
  w_userId :: string
  w_url :: string
  w_events :: "string list"
  w_secret :: string
  w_isActive :: bool
  w_lastTriggered :: "time option"
  w_failureCount :: int
  w_updatedAt :: time

record Device =
  dv_id :: string
  dv_userId :: string
  dv_phoneNumber :: string
  dv_deviceName :: string
  dv_deviceType :: DeviceType
  dv_status :: DeviceStatus
  dv_lastSeen :: "time option"
  dv_isConnected :: bool
  dv_batteryLevel :: "int option"
  dv_isCharging :: "bool option"

record Store =
  tasks :: "Task list"
  messages :: "Message list"
  webhooks :: "Webhook list"
  devices :: "Device list"

text \<open>
  What a handler can throw. \<open>PrismaNotFound\<close>: an update of a row that does not exist;
  \<open>PrismaValidation\<close>: a required column without a value, or a value outside its enum;
  \<open>PrismaUnique\<close>: a second row with the same unique key; \<open>TypeError\<close>: a property read or
  a method call on \<^verbatim>\<open>undefined\<close> or \<^verbatim>\<open>null\<close>; \<open>Error\<close>: an error with the given message.
\<close>

datatype error = TypeError | PrismaNotFound | PrismaValidation | PrismaUnique | Error string

text \<open>
  \<^verbatim>\<open>(error as Error).message\<close>. The texts of the library's own errors are abbreviated to
  the name of their kind.
\<close>

fun error_message :: "error \<Rightarrow> string" where
  "error_message TypeError = ''TypeError''"
| "error_message PrismaNotFound = ''Record to update not found''"
| "error_message PrismaValidation = ''Invalid invocation''"
| "error_message PrismaUnique = ''Unique constraint failed''"
| "error_message (Error msg) = msg"

subsection \<open>JavaScript and Prisma conventions\<close>

text \<open>
  Truthiness. Of a value typed \<^verbatim>\<open>string | undefined\<close>: present and not empty. Of a JSON
  value: \<^verbatim>\<open>null\<close>, \<^verbatim>\<open>false\<close>, 0 and the empty string are falsy, everything else,
  arrays and objects included, is truthy.
\<close>

definition truthy :: "string option \<Rightarrow> bool" where
  "truthy v = (case v of None \<Rightarrow> False | Some x \<Rightarrow> x \<noteq> [])"

fun jv_truthy :: "jv \<Rightarrow> bool" where
  "jv_truthy JNull = False"
| "jv_truthy (JBool b) = b"
| "jv_truthy (JNum n) = (n \<noteq> 0)"
| "jv_truthy (JStr s) = (s \<noteq> [])"
| "jv_truthy (JArr xs) = True"
| "jv_truthy (JObj kvs) = True"

definition js_truthy :: "jv option \<Rightarrow> bool" where
  "js_truthy v = (case v of None \<Rightarrow> False | Some x \<Rightarrow> jv_truthy x)"

text \<open>\<^verbatim>\<open>a || b\<close>, on optional strings and on fields of \<^verbatim>\<open>data\<close>.\<close>

definition str_or :: "string option \<Rightarrow> string option \<Rightarrow> string option" where
  "str_or a b = (if truthy a then a else b)"

definition js_or :: "jv option \<Rightarrow> jv option \<Rightarrow> jv option" where
  "js_or a b = (if js_truthy a then a else b)"

text \<open>\<^verbatim>\<open>a || 'default'\<close> and \<^verbatim>\<open>a || 5000\<close>, likewise.\<close>

definition str_or_default :: "string option \<Rightarrow> string \<Rightarrow> string" where
  "str_or_default a d = (if truthy a then the a else d)"

definition or_default :: "jv option \<Rightarrow> jv \<Rightarrow> jv" where
  "or_default a d = (if js_truthy a then the a else d)"

text \<open>
  In the \<^verbatim>\<open>data\<close> of a Prisma update, a field whose value is \<^verbatim>\<open>undefined\<close> is left as
  it is in the row.
\<close>

definition set_if_defined :: "'a option \<Rightarrow> 'a option \<Rightarrow> 'a option" where
  "set_if_defined v old = (case v of None \<Rightarrow> old | Some x \<Rightarrow> Some x)"

text \<open>\<^verbatim>\<open>String.prototype.toUpperCase\<close>, on the ASCII letters.\<close>

definition toUpperCase :: "string \<Rightarrow> string" where
  "toUpperCase s =
     map (\<lambda>c. case map_of (zip ''abcdefghijklmnopqrstuvwxyz'' ''ABCDEFGHIJKLMNOPQRSTUVWXYZ'') c of
                 None \<Rightarrow> c | Some u \<Rightarrow> u) s"

text \<open>The value of an enum column is accepted only when it names a member of the enum.\<close>

definition parse_MessageType :: "string \<Rightarrow> MessageType option" where
  "parse_MessageType s =
     map_of [(''TEXT'', TEXT), (''IMAGE'', IMAGE), (''VIDEO'', VIDEO), (''AUDIO'', AUDIO),
             (''DOCUMENT'', DOCUMENT), (''LOCATION'', LOCATION), (''CONTACT'', CONTACT),
             (''STICKER'', STICKER)] s"

text \<open>
  \<^verbatim>\<open>prisma.task.update({ where: { id }, data })\<close>: the row with this id gets the new
  values, and \<^verbatim>\<open>@updatedAt\<close> stamps it.
\<close>

definition task_update :: "string \<Rightarrow> (Task \<Rightarrow> Task) \<Rightarrow> time \<Rightarrow> Task list \<Rightarrow> Task list" where
  "task_update tid f now ts =
     map (\<lambda>t. if t_id t = tid then (f t)\<lparr>t_updatedAt := now\<rparr> else t) ts"

definition message_update ::
  "string \<Rightarrow> (Message \<Rightarrow> Message) \<Rightarrow> time \<Rightarrow> Message list \<Rightarrow> Message list" where
  "message_update mid f now ms =
     map (\<lambda>m. if m_id m = mid then (f m)\<lparr>m_updatedAt := now\<rparr> else m) ms"

definition webhook_update ::
  "string \<Rightarrow> (Webhook \<Rightarrow> Webhook) \<Rightarrow> time \<Rightarrow> Webhook list \<Rightarrow> Webhook list" where
  "webhook_update wid f now ws =
     map (\<lambda>w. if w_id w = wid then (f w)\<lparr>w_updatedAt := now\<rparr> else w) ws"

text \<open>
  \<^verbatim>\<open>findFirst\<close> with a condition that several rows can meet and no \<^verbatim>\<open>orderBy\<close>: the
  database returns one of the rows that meet it, whichever it comes upon first. \<open>pick\<close>
  says which one, counted among the matching rows. (Where the condition holds a unique
  key, at most one row matches and the lookup is written with \<open>find\<close>.)
\<close>

definition findFirst :: "nat \<Rightarrow> ('a \<Rightarrow> bool) \<Rightarrow> 'a list \<Rightarrow> 'a option" where
  "findFirst pick P rows =
     (case filter P rows of [] \<Rightarrow> None | c # cs \<Rightarrow> Some ((c # cs) ! (pick mod length (c # cs))))"

text \<open>
  What the client accepts for a column: for a required \<^verbatim>\<open>String\<close> a string; for a
  \<^verbatim>\<open>String?\<close> a string, \<^verbatim>\<open>null\<close> or nothing. Any other value is a validation error.
\<close>

definition string_column :: "jv option \<Rightarrow> error + string" where
  "string_column v = (case v of Some (JStr x) \<Rightarrow> Inr x | _ \<Rightarrow> Inl PrismaValidation)"

definition optional_string_column :: "jv option \<Rightarrow> error + string option" where
  "optional_string_column v =
     (case v of
        None \<Rightarrow> Inr None
      | Some JNull \<Rightarrow> Inr None
      | Some (JStr x) \<Rightarrow> Inr (Some x)
      | _ \<Rightarrow> Inl PrismaValidation)"

text \<open>
  \<^verbatim>\<open>prisma.message.create\<close>: \<^verbatim>\<open>deviceId\<close>, \<^verbatim>\<open>phoneNumber\<close> and \<^verbatim>\<open>messageType\<close> are
  required columns, \<^verbatim>\<open>content\<close> and \<^verbatim>\<open>mediaUrl\<close> optional strings; the id (a generated
  uuid, here \<open>fresh\<close>) is the primary key, and \<^verbatim>\<open>direction\<close>, \<^verbatim>\<open>isRead\<close>,
  \<^verbatim>\<open>createdAt\<close> take their defaults. The callers pass the device id of the task's own
  row, whose foreign key already holds.
\<close>

definition message_create ::
  "string \<Rightarrow> string \<Rightarrow> string option \<Rightarrow> string option \<Rightarrow> jv option \<Rightarrow>
   MessageType option \<Rightarrow> jv option \<Rightarrow> jv option \<Rightarrow> MessageStatus \<Rightarrow> time option \<Rightarrow>
   time \<Rightarrow> Message list \<Rightarrow> error + (Message \<times> Message list)" where
  "message_create fresh userId deviceId taskId phoneNumber messageType content mediaUrl
       status deliveredAt now ms =
     (case (deviceId, string_column phoneNumber, messageType,
            optional_string_column content, optional_string_column mediaUrl) of
        (Some dev, Inr phone, Some mt, Inr content', Inr mediaUrl') \<Rightarrow>
          if fresh \<in> set (map m_id ms) then Inl PrismaUnique
          else
            let m = \<lparr>m_id = fresh, m_userId = userId, m_deviceId = dev, m_taskId = taskId,
                     m_phoneNumber = phone, m_messageType = mt, m_content = content',
                     m_mediaUrl = mediaUrl', m_mediaType = None, m_status = status,
                     m_direction = OUTGOING, m_isRead = False, m_deliveredAt = deliveredAt,
                     m_readAt = None, m_error = None, m_metadata = None,
                     m_createdAt = now, m_updatedAt = now\<rparr>
            in Inr (m, ms @ [m])
      | _ \<Rightarrow> Inl PrismaValidation)"

subsection \<open>Webhook service: triggerWebhook\<close>

text \<open>
  \<open>post w\<close> says whether \<^verbatim>\<open>axios.post\<close> to the subscription returns (a 2xx answer within
  the timeout) or throws; \<open>maxRetries\<close> is
  \<^verbatim>\<open>parseInt(process.env.WEBHOOK_MAX_RETRIES || '3')\<close>. The loop runs over the rows as
  \<^verbatim>\<open>findMany\<close> returned them, so \<^verbatim>\<open>webhook.failureCount\<close> is the count read before the
  increment.
\<close>

definition webhook_selected :: "string \<Rightarrow> string \<Rightarrow> Webhook \<Rightarrow> bool" where
  "webhook_selected userId event w =
     (w_userId w = userId \<and> w_isActive w \<and> event \<in> set (w_events w))"

definition webhook_deliver ::
  "(Webhook \<Rightarrow> bool) \<Rightarrow> int \<Rightarrow> time \<Rightarrow> Webhook \<Rightarrow> Webhook list \<Rightarrow> Webhook list" where
  "webhook_deliver post maxRetries now webhook ws =
     (if post webhook then
        webhook_update (w_id webhook)
          (\<lambda>w. w\<lparr>w_lastTriggered := Some now, w_failureCount := 0\<rparr>) now ws
      else
        let ws1 = webhook_update (w_id webhook)
                    (\<lambda>w. w\<lparr>w_failureCount := w_failureCount w + 1\<rparr>) now ws
        in if w_failureCount webhook \<ge> maxRetries
           then webhook_update (w_id webhook) (\<lambda>w. w\<lparr>w_isActive := False\<rparr>) now ws1
           else ws1)"

definition triggerWebhook ::
  "(Webhook \<Rightarrow> bool) \<Rightarrow> int \<Rightarrow> string \<Rightarrow> string \<Rightarrow> time \<Rightarrow> Store \<Rightarrow> Store" where
  "triggerWebhook post maxRetries userId event now s =
     s\<lparr>webhooks :=
         fold (webhook_deliver post maxRetries now)
              (filter (webhook_selected userId event) (webhooks s)) (webhooks s)\<rparr>"

text \<open>The deliveries one call attempts: the subscriptions it posts to.\<close>

definition webhook_attempts :: "string \<Rightarrow> string \<Rightarrow> Store \<Rightarrow> string list" where
  "webhook_attempts userId event s =
     map w_id (filter (webhook_selected userId event) (webhooks s))"

subsection \<open>MobZapService.processCallback\<close>

datatype CallbackStatus = Completed | Failed | Processing

record DeliveryInfo =
  di_delivered :: bool
  di_read :: bool
  di_deliveredAt :: "time option"
  di_readAt :: "time option"

record MobZapCallback =
  cb_taskId :: string
  cb_status :: CallbackStatus
  cb_result :: "json option"
  cb_error :: "string option"
  cb_messageId :: "string option"
  cb_timestamp :: string
  cb_deliveryInfo :: "DeliveryInfo option"

text \<open>
  \<^verbatim>\<open>
  const updateData: any = {
    status: status === 'completed' ? 'COMPLETED' : status === 'failed' ? 'FAILED' : 'PROCESSING',
    result, error };
  if (status === 'completed') { updateData.completedAt = new Date(); }
  \<close>
\<close>

definition callback_task_data :: "MobZapCallback \<Rightarrow> time \<Rightarrow> Task \<Rightarrow> Task" where
  "callback_task_data cb now t =
     t\<lparr>t_status := (if cb_status cb = Completed then COMPLETED
                      else if cb_status cb = Failed then FAILED else PROCESSING),
        t_result := set_if_defined (cb_result cb) (t_result t),
        t_error := set_if_defined (cb_error cb) (t_error t),
        t_completedAt := (if cb_status cb = Completed then Some now else t_completedAt t)\<rparr>"

text \<open>
  \<^verbatim>\<open>
  status: deliveryInfo?.delivered ? 'DELIVERED' : 'SENT',
  deliveredAt: deliveryInfo?.deliveredAt ? new Date(deliveryInfo.deliveredAt) : new Date(),
  readAt: deliveryInfo?.readAt ? new Date(deliveryInfo.readAt) : undefined,
  metadata: { messageId, ...result }
  \<close>
  and, for a failed callback, \<^verbatim>\<open>{ status: 'FAILED', error }\<close>. A callback that is neither
  leaves the message as it is.
\<close>

definition callback_message_data :: "MobZapCallback \<Rightarrow> time \<Rightarrow> Message \<Rightarrow> Message" where
  "callback_message_data cb now m =
     (if cb_status cb = Completed then
        m\<lparr>m_status := (case cb_deliveryInfo cb of
                          None \<Rightarrow> SENT
                        | Some di \<Rightarrow> if di_delivered di then DELIVERED else SENT),
          m_deliveredAt := (case cb_deliveryInfo cb of
                              None \<Rightarrow> Some now
                            | Some di \<Rightarrow>
                                (case di_deliveredAt di of None \<Rightarrow> Some now | Some d \<Rightarrow> Some d)),
          m_readAt := (case cb_deliveryInfo cb of
                         None \<Rightarrow> m_readAt m
                       | Some di \<Rightarrow> set_if_defined (di_readAt di) (m_readAt m)),
          m_metadata := Some (cb_messageId cb, cb_result cb)\<rparr>
      else m\<lparr>m_status := MSG_FAILED, m_error := set_if_defined (cb_error cb) (m_error m)\<rparr>)"

text \<open>
  \<^verbatim>\<open>findFirst({ where: { taskId } })\<close>, and when there is no such message the
  \<^verbatim>\<open>create\<close> with status \<^verbatim>\<open>PENDING\<close>:
  \<^verbatim>\<open>messageType: task.type === 'MEDIA' ? taskData.mediaType?.toUpperCase() : 'TEXT'\<close>,
  \<^verbatim>\<open>content: taskData.message || taskData.caption\<close>. The optional call gives
  \<^verbatim>\<open>undefined\<close> on an absent or \<^verbatim>\<open>null\<close> media type, the upper-cased text on a string,
  and throws a TypeError on any other value, which has no \<^verbatim>\<open>toUpperCase\<close>.
\<close>

definition callback_messageType :: "Task \<Rightarrow> error + MessageType option" where
  "callback_messageType task =
     (if t_type task = MEDIA
      then (case d_mediaType (t_data task) of
              None \<Rightarrow> Inr None
            | Some JNull \<Rightarrow> Inr None
            | Some (JStr mt) \<Rightarrow> Inr (parse_MessageType (toUpperCase mt))
            | Some _ \<Rightarrow> Inl TypeError)
      else Inr (Some TEXT))"

definition callback_find_or_create ::
  "nat \<Rightarrow> string \<Rightarrow> Task \<Rightarrow> string \<Rightarrow> time \<Rightarrow> string \<Rightarrow> Message list \<Rightarrow>
   error + (Message \<times> Message list)" where
  "callback_find_or_create pick userId task taskId now fresh ms =
     (case findFirst pick (\<lambda>m. m_taskId m = Some taskId) ms of
        Some m \<Rightarrow> Inr (m, ms)
      | None \<Rightarrow>
          (case callback_messageType task of
             Inl e \<Rightarrow> Inl e
           | Inr messageType \<Rightarrow>
               message_create fresh userId (t_deviceId task) (Some taskId)
                 (d_phoneNumber (t_data task)) messageType
                 (js_or (d_message (t_data task)) (d_caption (t_data task)))
                 (d_mediaUrl (t_data task)) MSG_PENDING None now ms))"

text \<open>
  The whole handler. \<open>now\<close> is the clock of this call, \<open>fresh\<close> the uuid a created
  message would get, \<open>pick\<close> the database's choice among the task's messages. The result
  is the error the handler rethrows, if any, and the store as the call leaves it (there
  is no transaction: writes made before a throw stay). The last step,
  \<^verbatim>\<open>this.triggerWebhook\<close>, is the service's own private method, whose body is empty:
  it writes nothing.
\<close>

definition processCallback ::
  "nat \<Rightarrow> string \<Rightarrow> MobZapCallback \<Rightarrow> time \<Rightarrow> string \<Rightarrow> Store \<Rightarrow> error option \<times> Store" where
  "processCallback pick userId cb now fresh s =
     (case find (\<lambda>t. t_id t = cb_taskId cb \<and> t_userId t = userId) (tasks s) of
        None \<Rightarrow> (None, s)
      | Some task \<Rightarrow>
          let s1 = s\<lparr>tasks := task_update (cb_taskId cb) (callback_task_data cb now) now (tasks s)\<rparr>
          in if t_type task = MESSAGE \<or> t_type task = MEDIA then
               (case callback_find_or_create pick userId task (cb_taskId cb) now fresh
                       (messages s1) of
                  Inl e \<Rightarrow> (Some e, s1)
                | Inr (message, ms) \<Rightarrow>
                    let ms' = (if cb_status cb = Completed \<or> cb_status cb = Failed
                               then message_update (m_id message)
                                      (callback_message_data cb now) now ms
                               else ms)
                    in (None, s1\<lparr>messages := ms'\<rparr>))
             else (None, s1))"

subsection \<open>TaskController.updateTaskStatus\<close>

text \<open>A response: the HTTP status and the \<^verbatim>\<open>success\<close> and \<^verbatim>\<open>message\<close> fields of its body,
  or the error handed to \<^verbatim>\<open>next\<close>.\<close>

datatype response = Json nat bool string | NextError error

fun task_status_lower :: "TaskStatus \<Rightarrow> string" where
  "task_status_lower PENDING = ''pending''"
| "task_status_lower PROCESSING = ''processing''"
| "task_status_lower COMPLETED = ''completed''"
| "task_status_lower FAILED = ''failed''"
| "task_status_lower CANCELLED = ''cancelled''"

text \<open>
  \<^verbatim>\<open>data: { status, result, error, completedAt: status === 'COMPLETED' ? new Date() : null }\<close>,
  then, when \<^verbatim>\<open>status === 'COMPLETED' && task.type === 'MESSAGE'\<close>, a
  \<^verbatim>\<open>prisma.message.create\<close> with status \<^verbatim>\<open>SENT\<close> and \<^verbatim>\<open>deliveredAt: new Date()\<close>.
\<close>

definition updateTaskStatus ::
  "(Webhook \<Rightarrow> bool) \<Rightarrow> int \<Rightarrow> string \<Rightarrow> string \<Rightarrow> TaskStatus \<Rightarrow> json option \<Rightarrow>
   string option \<Rightarrow> time \<Rightarrow> string \<Rightarrow> Store \<Rightarrow> response \<times> Store" where
  "updateTaskStatus post maxRetries taskId userId status result err now fresh s =
     (case find (\<lambda>t. t_id t = taskId \<and> t_userId t = userId) (tasks s) of
        None \<Rightarrow> (Json 404 False ''Task not found'', s)
      | Some task \<Rightarrow>
          let s1 = s\<lparr>tasks := task_update taskId
                       (\<lambda>t. t\<lparr>t_status := status,
                               t_result := set_if_defined result (t_result t),
                               t_error := set_if_defined err (t_error t),
                               t_completedAt := (if status = COMPLETED then Some now else None)\<rparr>)
                       now (tasks s)\<rparr>;
              event = ''task.'' @ task_status_lower status
          in if status = COMPLETED \<and> t_type task = MESSAGE then
               (case message_create fresh userId (t_deviceId task) (Some (t_id task))
                       (d_phoneNumber (t_data task)) (Some TEXT) (d_message (t_data task)) None
                       SENT (Some now) now (messages s1) of
                  Inl e \<Rightarrow> (NextError e, s1)
                | Inr (m, ms) \<Rightarrow>
                    (Json 200 True ''Task status updated'',
                     triggerWebhook post maxRetries userId event now (s1\<lparr>messages := ms\<rparr>)))
             else (Json 200 True ''Task status updated'',
                   triggerWebhook post maxRetries userId event now s1))"

subsection \<open>Socket server: the message_status handler\<close>

text \<open>
  \<^verbatim>\<open>
  await prisma.message.update({ where: { id: messageId }, data: { status,
      deliveredAt: status === 'DELIVERED' ? new Date() : undefined,
      readAt: status === 'READ' ? new Date() : undefined } });
  \<close>
  An update of a message that does not exist throws; the handler logs the error and goes on.
\<close>

definition message_status :: "string \<Rightarrow> MessageStatus \<Rightarrow> time \<Rightarrow> Store \<Rightarrow> Store" where
  "message_status messageId status now s =
     (if messageId \<in> set (map m_id (messages s)) then
        s\<lparr>messages := message_update messageId
             (\<lambda>m. m\<lparr>m_status := status,
                     m_deliveredAt := (if status = DELIVERED then Some now else m_deliveredAt m),
                     m_readAt := (if status = READ then Some now else m_readAt m)\<rparr>)
             now (messages s)\<rparr>
      else s)"

subsection \<open>Queue service: the message worker\<close>

text \<open>\<^verbatim>\<open>job.data\<close>, as \<open>addToQueue\<close> builds it from the task.\<close>

record Job =
  j_taskId :: string
  j_userId :: string
  j_deviceId :: "string option"
  j_data :: TaskData

text \<open>An update through the client throws when no row has the id.\<close>

definition prisma_task_update ::
  "string \<Rightarrow> (Task \<Rightarrow> Task) \<Rightarrow> time \<Rightarrow> Task list \<Rightarrow> error + Task list" where
  "prisma_task_update tid f now ts =
     (if tid \<in> set (map t_id ts) then Inr (task_update tid f now ts) else Inl PrismaNotFound)"

text \<open>
  The \<^verbatim>\<open>catch\<close> block of the worker: the task becomes \<^verbatim>\<open>FAILED\<close> with the error's
  message and \<^verbatim>\<open>retryCount\<close> one higher, and the error is thrown again. When this update
  throws, its error is the one that leaves the worker.
\<close>

definition messageQueue_failed :: "error \<Rightarrow> Job \<Rightarrow> time \<Rightarrow> Store \<Rightarrow> (error + json) \<times> Store" where
  "messageQueue_failed e job now s =
     (case prisma_task_update (j_taskId job)
             (\<lambda>t. t\<lparr>t_status := FAILED, t_error := Some (error_message e),
                     t_retryCount := t_retryCount t + 1\<rparr>) now (tasks s) of
        Inl e' \<Rightarrow> (Inl e', s)
      | Inr ts \<Rightarrow> (Inl e, s\<lparr>tasks := ts\<rparr>))"

text \<open>
  \<^verbatim>\<open>messageQueue.process\<close>, one run of the worker on a job. \<open>send\<close> is what
  \<^verbatim>\<open>sendWhatsAppMessage(deviceId, data)\<close> does on this run: it returns a result object or
  throws. The steps of the \<^verbatim>\<open>try\<close> block: the task becomes \<^verbatim>\<open>PROCESSING\<close>; the message
  is sent; the task becomes \<^verbatim>\<open>COMPLETED\<close> with the result; a Message with status \<^verbatim>\<open>SENT\<close>
  is created; the \<^verbatim>\<open>message.sent\<close> webhook is triggered; the result is returned.
\<close>

definition messageQueue_process ::
  "(Webhook \<Rightarrow> bool) \<Rightarrow> int \<Rightarrow> (error + json) \<Rightarrow> Job \<Rightarrow> time \<Rightarrow> string \<Rightarrow> Store \<Rightarrow>
   (error + json) \<times> Store" where
  "messageQueue_process post maxRetries send job now fresh s =
     (case prisma_task_update (j_taskId job)
             (\<lambda>t. t\<lparr>t_status := PROCESSING, t_executedAt := Some now\<rparr>) now (tasks s) of
        Inl e \<Rightarrow> messageQueue_failed e job now s
      | Inr ts1 \<Rightarrow>
          (case send of
             Inl e \<Rightarrow> messageQueue_failed e job now (s\<lparr>tasks := ts1\<rparr>)
           | Inr result \<Rightarrow>
               (case prisma_task_update (j_taskId job)
                       (\<lambda>t. t\<lparr>t_status := COMPLETED, t_completedAt := Some now,
                               t_result := Some result\<rparr>) now ts1 of
                  Inl e \<Rightarrow> messageQueue_failed e job now (s\<lparr>tasks := ts1\<rparr>)
                | Inr ts2 \<Rightarrow>
                    (case message_create fresh (j_userId job) (j_deviceId job)
                            (Some (j_taskId job)) (d_phoneNumber (j_data job)) (Some TEXT)
                            (d_message (j_data job)) None SENT (Some now) now (messages s) of
                       Inl e \<Rightarrow> messageQueue_failed e job now (s\<lparr>tasks := ts2\<rparr>)
                     | Inr (m, ms) \<Rightarrow>
                         (Inr result,
                          triggerWebhook post maxRetries (j_userId job) ''message.sent'' now
                            (s\<lparr>tasks := ts2, messages := ms\<rparr>))))))"

text \<open>
  \<^verbatim>\<open>queueData\<close>, the job data that \<open>addToQueue\<close> builds: the task's id, owner, device
  and data.
\<close>

definition job_of :: "Task \<Rightarrow> Job" where
  "job_of task = \<lparr>j_taskId = t_id task, j_userId = t_userId task,
                    j_deviceId = t_deviceId task, j_data = t_data task\<rparr>"





text \<open>
  \<open>TaskController.createTask\<close> adds the new task to its queue only when the request has no
  \<^verbatim>\<open>scheduledAt\<close>: \<^verbatim>\<open>if (!scheduledAt) { await addToQueue(task); }\<close>. The result is the
  list of tasks handed to \<open>addToQueue\<close>.
\<close>

definition createTask_enqueue :: "Task \<Rightarrow> Task list" where
  "createTask_enqueue task = (if t_scheduledAt task = None then [task] else [])"

subsection \<open>TaskController.cancelTask\<close>

text \<open>
  \<^verbatim>\<open>
  const task = await prisma.task.findFirst({ where: { id: taskId, userId, status: 'PENDING' } });
  if (!task) { return res.status(404).json({ success: false,
                  message: 'Task not found or cannot be cancelled' }); }
  await prisma.task.update({ where: { id: taskId }, data: { status: 'CANCELLED' } });
  res.json({ success: true, message: 'Task cancelled successfully' });
  \<close>
\<close>

definition cancelTask :: "string \<Rightarrow> string \<Rightarrow> time \<Rightarrow> Store \<Rightarrow> response \<times> Store" where
  "cancelTask taskId userId now s =
     (case find (\<lambda>t. t_id t = taskId \<and> t_userId t = userId \<and> t_status t = PENDING) (tasks s) of
        None \<Rightarrow> (Json 404 False ''Task not found or cannot be cancelled'', s)
      | Some task \<Rightarrow>
          (Json 200 True ''Task cancelled successfully'',
           s\<lparr>tasks := task_update taskId (\<lambda>t. t\<lparr>t_status := CANCELLED\<rparr>) now (tasks s)\<rparr>))"

subsection \<open>MobZapService.convertToMobZapFormat\<close>

datatype MobZapType = Chat | Media | Group | Group_message | Bulk

datatype ActionChat = Send | Join | Leave

text \<open>
  The instruction sent to the device. The fields copied from \<^verbatim>\<open>data\<close> carry whatever
  JSON value was there.
\<close>

record MobZapTask =
  z_id :: string
  z_type :: MobZapType
  z_package :: string
  z_number :: "jv option"
  z_numbers :: "jv option"
  z_text :: "jv option"
  z_url :: "jv option"
  z_mediaType :: "jv option"
  z_link :: "jv option"
  z_groupId :: "jv option"
  z_actionChat :: "ActionChat option"
  z_delay :: "jv option"

text \<open>\<^verbatim>\<open>deviceType.toLowerCase()\<close>.\<close>

fun deviceType_lower :: "DeviceType \<Rightarrow> string" where
  "deviceType_lower NORMAL = ''normal''"
| "deviceType_lower BUSINESS = ''business''"

text \<open>\<^verbatim>\<open>baseTask\<close>: \<^verbatim>\<open>{ id: task.id, type: 'chat', package: deviceType.toLowerCase() }\<close>.\<close>

definition baseTask :: "Task \<Rightarrow> DeviceType \<Rightarrow> MobZapTask" where
  "baseTask task deviceType =
     \<lparr>z_id = t_id task, z_type = Chat, z_package = deviceType_lower deviceType,
      z_number = None, z_numbers = None, z_text = None, z_url = None, z_mediaType = None,
      z_link = None, z_groupId = None, z_actionChat = None, z_delay = None\<rparr>"

text \<open>
  The call \<^verbatim>\<open>this.formatPhoneNumber(x)\<close> on a value of type \<^verbatim>\<open>any\<close>: its first step is
  \<^verbatim>\<open>phone.replace(...)\<close>, which only a string has; on \<^verbatim>\<open>undefined\<close>, \<^verbatim>\<open>null\<close> and on
  every other JSON value it throws a TypeError.
\<close>

definition formatPhoneNumber_any :: "jv option \<Rightarrow> error + string" where
  "formatPhoneNumber_any v =
     (case v of Some (JStr phone) \<Rightarrow> Inr (formatPhoneNumber phone) | _ \<Rightarrow> Inl TypeError)"

text \<open>
  \<^verbatim>\<open>data.phoneNumbers.map((n: string) => this.formatPhoneNumber(n))\<close>: only an array has
  \<^verbatim>\<open>map\<close>, and the call on each element throws unless the element is a string.
\<close>

fun jv_string :: "jv \<Rightarrow> string option" where
  "jv_string (JStr x) = Some x"
| "jv_string v = None"

definition formatPhoneNumbers_any :: "jv option \<Rightarrow> error + string list" where
  "formatPhoneNumbers_any v =
     (case v of
        Some (JArr phones) \<Rightarrow>
          if None \<in> set (map jv_string phones) then Inl TypeError
          else Inr (map (\<lambda>n. formatPhoneNumber (the (jv_string n))) phones)
      | _ \<Rightarrow> Inl TypeError)"

text \<open>
  The \<^verbatim>\<open>switch (task.type)\<close>. The \<^verbatim>\<open>default\<close> case logs a warning and returns
  \<^verbatim>\<open>null\<close>, here \<open>Inr None\<close>.
\<close>

definition convertToMobZapFormat :: "Task \<Rightarrow> DeviceType \<Rightarrow> error + MobZapTask option" where
  "convertToMobZapFormat task deviceType =
     (let data = t_data task; base = baseTask task deviceType
      in case t_type task of
           MESSAGE \<Rightarrow>
             (case formatPhoneNumber_any (d_phoneNumber data) of
                Inl e \<Rightarrow> Inl e
              | Inr number \<Rightarrow>
                  Inr (Some (base\<lparr>z_type := Chat, z_number := Some (JStr number),
                                   z_text := d_message data, z_actionChat := Some Send\<rparr>)))
         | MEDIA \<Rightarrow>
             (case formatPhoneNumber_any (d_phoneNumber data) of
                Inl e \<Rightarrow> Inl e
              | Inr number \<Rightarrow>
                  Inr (Some (base\<lparr>z_type := Media, z_number := Some (JStr number),
                                   z_url := d_mediaUrl data,
                                   z_mediaType :=
                                     Some (or_default (d_mediaType data) (JStr ''image'')),
                                   z_text := Some (or_default (d_caption data) (JStr []))\<rparr>)))
         | GROUP_JOIN \<Rightarrow>
             Inr (Some (base\<lparr>z_type := Group, z_link := d_inviteLink data,
                              z_text := Some (or_default (d_welcomeMessage data) (JStr [])),
                              z_actionChat := Some Join\<rparr>))
         | GROUP_LEAVE \<Rightarrow>
             Inr (Some (base\<lparr>z_type := Group, z_groupId := d_groupId data,
                              z_actionChat := Some Leave\<rparr>))
         | GROUP_MESSAGE \<Rightarrow>
             Inr (Some (base\<lparr>z_type := Group_message, z_groupId := d_groupId data,
                              z_text := d_message data\<rparr>))
         | BULK_MESSAGE \<Rightarrow>
             (case formatPhoneNumbers_any (d_phoneNumbers data) of
                Inl e \<Rightarrow> Inl e
              | Inr numbers \<Rightarrow>
                  Inr (Some (base\<lparr>z_type := Bulk,
                                   z_numbers := Some (JArr (map JStr numbers)),
                                   z_text := d_message data,
                                   z_delay := Some (or_default (d_delay data) (JNum 5000))\<rparr>)))
         | SCHEDULED_MESSAGE \<Rightarrow> Inr None)"

subsection \<open>The query for pending tasks\<close>

text \<open>
  \<^verbatim>\<open>
  where: { userId, deviceId: device.id, status: 'PENDING',
           OR: [ { scheduledAt: null }, { scheduledAt: { lte: new Date() } } ] },
  orderBy: [ { priority: 'desc' }, { createdAt: 'asc' } ],
  take: 10
  \<close>
  The same query stands in \<open>MobZapService.fetchTasks\<close> and in \<open>TaskController.getTasks\<close>.
  It names no key after \<^verbatim>\<open>createdAt\<close>: rows that agree on priority and creation time
  come in whatever order the database produces them. That order is the parameter \<open>tie\<close>,
  a rank the database gives each row for this one query; the code has no hold on it.
\<close>

definition pending_where :: "string \<Rightarrow> string \<Rightarrow> time \<Rightarrow> Task \<Rightarrow> bool" where
  "pending_where userId deviceId now t =
     (t_userId t = userId \<and> t_deviceId t = Some deviceId \<and> t_status t = PENDING \<and>
      (case t_scheduledAt t of None \<Rightarrow> True | Some at \<Rightarrow> at \<le> now))"

definition order_key :: "(Task \<Rightarrow> int) \<Rightarrow> Task \<Rightarrow> int \<times> int \<times> int" where
  "order_key tie t = (- t_priority t, t_createdAt t, tie t)"

definition findPending ::
  "(Task \<Rightarrow> int) \<Rightarrow> string \<Rightarrow> string \<Rightarrow> time \<Rightarrow> Task list \<Rightarrow> Task list" where
  "findPending tie userId deviceId now ts =
     take 10 (sort_key (order_key tie) (filter (pending_where userId deviceId now) ts))"

text \<open>\<^verbatim>\<open>data: { status: 'PROCESSING', executedAt: new Date() }\<close>.\<close>

definition claim :: "time \<Rightarrow> Task \<Rightarrow> Task" where
  "claim now t = t\<lparr>t_status := PROCESSING, t_executedAt := Some now\<rparr>"

subsection \<open>MobZapService.fetchTasks\<close>

record MobZapDevice =
  phone_normal :: "string option"
  phone_business :: "string option"
  battery_level :: "int option"
  is_charging :: "bool option"
  device_model :: "string option"

text \<open>
  The first half of \<open>fetchTasks\<close>: the device of this user with the phone number is looked
  up; when there is none it is registered (the phone number is a unique column, the id a
  generated uuid, here \<open>fresh\<close>), otherwise its status columns are updated. The code goes
  on with the row it found or created.
\<close>

definition fetch_device ::
  "string \<Rightarrow> MobZapDevice \<Rightarrow> time \<Rightarrow> string \<Rightarrow> Store \<Rightarrow> error + (Device \<times> Store)" where
  "fetch_device userId deviceData now fresh s =
     (let phoneNumber = str_or (phone_normal deviceData) (phone_business deviceData)
      in if \<not> truthy phoneNumber then Inl (Error ''Phone number required'')
         else
           (case find (\<lambda>d. dv_userId d = userId \<and> dv_phoneNumber d = the phoneNumber)
                   (devices s) of
              None \<Rightarrow>
                if the phoneNumber \<in> set (map dv_phoneNumber (devices s))
                   \<or> fresh \<in> set (map dv_id (devices s))
                then Inl PrismaUnique
                else
                  let device =
                    \<lparr>dv_id = fresh, dv_userId = userId, dv_phoneNumber = the phoneNumber,
                     dv_deviceName = ''MobZap '' @ str_or_default (device_model deviceData) ''Device'',
                     dv_deviceType = (if truthy (phone_business deviceData)
                                      then BUSINESS else NORMAL),
                     dv_status = ACTIVE, dv_lastSeen = Some now, dv_isConnected = True,
                     dv_batteryLevel = battery_level deviceData,
                     dv_isCharging = is_charging deviceData\<rparr>
                  in Inr (device, s\<lparr>devices := devices s @ [device]\<rparr>)
            | Some device \<Rightarrow>
                Inr (device,
                     s\<lparr>devices :=
                         map (\<lambda>d. if dv_id d = dv_id device
                                   then d\<lparr>dv_isConnected := True, dv_lastSeen := Some now,
                                          dv_batteryLevel :=
                                            set_if_defined (battery_level deviceData)
                                              (dv_batteryLevel d),
                                          dv_isCharging :=
                                            set_if_defined (is_charging deviceData)
                                              (dv_isCharging d),
                                          dv_status := ACTIVE\<rparr>
                                   else d) (devices s)\<rparr>)))"

text \<open>
  The second half: the pending tasks are read; \<^verbatim>\<open>Promise.all(tasks.map(async ...))\<close>
  starts, for every task read, the update that marks it \<^verbatim>\<open>PROCESSING\<close> and then converts
  it. A conversion that throws rejects the whole call, and so does
  \<^verbatim>\<open>mobzapTasks.map(t => t.id)\<close> when a converted task is \<^verbatim>\<open>null\<close>; in both cases the
  updates have been issued. Otherwise the converted tasks are returned. The session map
  and the cache entry, which no later step of this model reads, are left out.
\<close>

definition claim_all :: "time \<Rightarrow> Task list \<Rightarrow> Task list \<Rightarrow> Task list" where
  "claim_all now claimed ts = fold (\<lambda>c. task_update (t_id c) (claim now) now) claimed ts"

definition first_error :: "(error + 'a) list \<Rightarrow> error option" where
  "first_error rs = (case filter isl rs of [] \<Rightarrow> None | r # _ \<Rightarrow> Some (projl r))"

definition fetchTasks ::
  "(Task \<Rightarrow> int) \<Rightarrow> string \<Rightarrow> MobZapDevice \<Rightarrow> time \<Rightarrow> string \<Rightarrow> Store \<Rightarrow>
   (error + MobZapTask list) \<times> Store" where
  "fetchTasks tie userId deviceData now fresh s =
     (case fetch_device userId deviceData now fresh s of
        Inl e \<Rightarrow> (Inl e, s)
      | Inr (device, s1) \<Rightarrow>
          let found = findPending tie userId (dv_id device) now (tasks s1);
              s2 = s1\<lparr>tasks := claim_all now found (tasks s1)\<rparr>;
              converted = map (\<lambda>task. convertToMobZapFormat task (dv_deviceType device)) found
          in case first_error converted of
               Some e \<Rightarrow> (Inl e, s2)
             | None \<Rightarrow>
                 let mobzapTasks = map projr converted
                 in if None \<in> set mobzapTasks then (Inl TypeError, s2)
                    else (Inr (map the mobzapTasks), s2))"

subsection \<open>TaskController.getTasks\<close>

text \<open>
  The controller's own formatting: the phone numbers are passed on as stored, no field is
  required, and the \<^verbatim>\<open>default\<close> case (which here includes \<^verbatim>\<open>GROUP_LEAVE\<close>) gives
  \<^verbatim>\<open>null\<close>, which \<^verbatim>\<open>.filter(Boolean)\<close> removes.
\<close>

definition getTasks_format :: "Task \<Rightarrow> DeviceType \<Rightarrow> MobZapTask option" where
  "getTasks_format task deviceType =
     (let data = t_data task; base = baseTask task deviceType
      in case t_type task of
           MESSAGE \<Rightarrow>
             Some (base\<lparr>z_type := Chat, z_number := d_phoneNumber data,
                        z_text := d_message data, z_actionChat := Some Send\<rparr>)
         | MEDIA \<Rightarrow>
             Some (base\<lparr>z_type := Media, z_url := d_mediaUrl data,
                        z_mediaType := d_mediaType data,
                        z_text := Some (or_default (d_caption data) (JStr [])),
                        z_number := d_phoneNumber data\<rparr>)
         | GROUP_JOIN \<Rightarrow>
             Some (base\<lparr>z_type := Group, z_link := d_inviteLink data,
                        z_text := Some (or_default (d_message data) (JStr [])),
                        z_actionChat := Some Join\<rparr>)
         | GROUP_MESSAGE \<Rightarrow>
             Some (base\<lparr>z_type := Group_message, z_groupId := d_groupId data,
                        z_text := d_message data\<rparr>)
         | BULK_MESSAGE \<Rightarrow>
             Some (base\<lparr>z_type := Bulk, z_numbers := d_phoneNumbers data,
                        z_text := d_message data,
                        z_delay := Some (or_default (d_delay data) (JNum 5000))\<rparr>)
         | _ \<Rightarrow> None)"

text \<open>\<^verbatim>\<open>prisma.task.updateMany({ where: { id: { in: ids } }, data })\<close>.\<close>

definition task_updateMany ::
  "string list \<Rightarrow> (Task \<Rightarrow> Task) \<Rightarrow> time \<Rightarrow> Task list \<Rightarrow> Task list" where
  "task_updateMany ids f now ts =
     map (\<lambda>t. if t_id t \<in> set ids then (f t)\<lparr>t_updatedAt := now\<rparr> else t) ts"

text \<open>
  The device must be \<^verbatim>\<open>ACTIVE\<close>; a phone number that is \<^verbatim>\<open>undefined\<close> puts no condition
  on the device, and then several devices of the user can match: \<open>pick\<close> is the
  database's choice among them. Without a device the answer is 404. Then the device is
  stamped, the pending tasks are read and formatted, all tasks read are marked
  \<^verbatim>\<open>PROCESSING\<close>, and the formatted ones are the answer.
\<close>

definition getTasks ::
  "(Task \<Rightarrow> int) \<Rightarrow> nat \<Rightarrow> string \<Rightarrow> string option \<Rightarrow> string option \<Rightarrow> time \<Rightarrow> Store \<Rightarrow>
   (response + MobZapTask list) \<times> Store" where
  "getTasks tie pick userId phoneNormal phoneBusiness now s =
     (case findFirst pick
             (\<lambda>d. dv_userId d = userId
                   \<and> (case str_or phoneNormal phoneBusiness of
                         None \<Rightarrow> True | Some p \<Rightarrow> dv_phoneNumber d = p)
                   \<and> dv_status d = ACTIVE) (devices s) of
        None \<Rightarrow> (Inl (Json 404 False ''Device not found or inactive''), s)
      | Some device \<Rightarrow>
          let s1 = s\<lparr>devices :=
                       map (\<lambda>d. if dv_id d = dv_id device
                                 then d\<lparr>dv_lastSeen := Some now, dv_isConnected := True\<rparr>
                                 else d) (devices s)\<rparr>;
              found = findPending tie userId (dv_id device) now (tasks s1);
              formattedTasks =
                map the (filter (\<lambda>x. x \<noteq> None)
                           (map (\<lambda>task. getTasks_format task (dv_deviceType device)) found));
              s2 = (if found \<noteq> []
                    then s1\<lparr>tasks := task_updateMany (map t_id found) (claim now) now (tasks s1)\<rparr>
                    else s1)
          in (Inr formattedTasks, s2))"

text \<open>
  The order the specification asks for: a task goes before another when its priority is
  higher, or when the priorities are equal and it was not created later.
\<close>

definition dispatch_before :: "Task \<Rightarrow> Task \<Rightarrow> bool" where
  "dispatch_before a b =
     (t_priority a > t_priority b \<or> (t_priority a = t_priority b \<and> t_createdAt a \<le> t_createdAt b))"

subsection \<open>Stored state without its clock stamps\<close>

text \<open>
  A task row without the two columns that \<open>processCallback\<close> stamps from the clock, and a
  message row likewise.
\<close>

definition task_without_clock :: "Task \<Rightarrow> Task" where
  "task_without_clock t = t\<lparr>t_completedAt := None, t_updatedAt := 0\<rparr>"

definition message_without_clock :: "Message \<Rightarrow> Message" where
  "message_without_clock m = m\<lparr>m_deliveredAt := None, m_updatedAt := 0\<rparr>"

subsection \<open>The order of claiming, in the specification's words\<close>

text \<open>
  A task is eligible at a time when it is pending and its \<^verbatim>\<open>scheduledAt\<close> is null or not
  later than that time. A list of claimed tasks is in order when it is sorted by
  \<open>dispatch_before\<close> and every eligible task of the same owner and device that was left
  out comes after all the claimed ones.
\<close>

definition eligible :: "time \<Rightarrow> Task \<Rightarrow> bool" where
  "eligible now t =
     (t_status t = PENDING \<and> (case t_scheduledAt t of None \<Rightarrow> True | Some at \<Rightarrow> at \<le> now))"

definition claimed_in_order :: "time \<Rightarrow> Task list \<Rightarrow> Task list \<Rightarrow> bool" where
  "claimed_in_order now ts claimed =
     (set claimed \<subseteq> set ts \<and> sorted_wrt dispatch_before claimed \<and>
      (\<forall>c\<in>set claimed. \<forall>t\<in>set ts.
         t \<notin> set claimed \<and> eligible now t \<and> t_userId t = t_userId c \<and> t_deviceId t = t_deviceId c
           \<longrightarrow> dispatch_before c t))"

text \<open>What a call did to a row: \<open>claimed_at now t t'\<close> says that the pending row \<open>t\<close>, due at
  \<open>now\<close>, became the processing row \<open>t'\<close>.\<close>

definition claimed_at :: "time \<Rightarrow> Task \<Rightarrow> Task \<Rightarrow> bool" where
  "claimed_at now t t' =
     (eligible now t \<and> t_status t' = PROCESSING \<and> t_executedAt t' = Some now)"

subsection \<open>Shapes of payload fields, in the specification's words\<close>

text \<open>A field is a string; a field is a list of strings (a list of destination identifiers).\<close>

definition is_string :: "jv option \<Rightarrow> bool" where
  "is_string v = (case v of Some (JStr x) \<Rightarrow> True | _ \<Rightarrow> False)"

definition is_string_list :: "jv option \<Rightarrow> bool" where
  "is_string_list v =
     (case v of Some (JArr xs) \<Rightarrow> list_all (\<lambda>x. is_string (Some x)) xs | _ \<Rightarrow> False)"

section \<open>Example data\<close>

text \<open>Scenario A of the specification: a message task for 11999887766 with body "hi".\<close>

definition post_ok :: "Webhook \<Rightarrow> bool" where
  "post_ok w = True"

definition post_fails :: "Webhook \<Rightarrow> bool" where
  "post_fails w = False"

definition ex_data :: TaskData where
  "ex_data = \<lparr>d_phoneNumber = Some (JStr ''11999887766''), d_message = Some (JStr ''hi''),
          d_mediaUrl = None,
          d_mediaType = None, d_caption = None, d_inviteLink = None, d_welcomeMessage = None,
          d_groupId = None, d_phoneNumbers = None, d_delay = None\<rparr>"

definition ex_task :: Task where
  "ex_task = \<lparr>t_id = ''t1'', t_userId = ''u1'', t_deviceId = Some ''d1'', t_type = MESSAGE,
          t_status = PROCESSING, t_priority = 5, t_scheduledAt = None, t_executedAt = Some 500,
          t_completedAt = None, t_retryCount = 0, t_maxRetries = 3, t_data = ex_data,
          t_result = None, t_error = None, t_createdAt = 100, t_updatedAt = 500\<rparr>"

definition ex_store :: Store where
  "ex_store = \<lparr>tasks = [ex_task], messages = [], webhooks = [], devices = []\<rparr>"

definition ex_callback :: MobZapCallback where
  "ex_callback = \<lparr>cb_taskId = ''t1'', cb_status = Completed, cb_result = None, cb_error = None,
           cb_messageId = None, cb_timestamp = ''2024-01-01T00:00:01Z'',
           cb_deliveryInfo = None\<rparr>"

text \<open>The store after the callback \<open>ex_callback\<close> has been processed once at time 1000.\<close>

definition ex_message :: Message where
  "ex_message = \<lparr>m_id = ''m1'', m_userId = ''u1'', m_deviceId = ''d1'', m_taskId = Some ''t1'',
          m_phoneNumber = ''11999887766'', m_messageType = TEXT, m_content = Some ''hi'',
          m_mediaUrl = None, m_mediaType = None, m_status = SENT, m_direction = OUTGOING,
          m_isRead = False, m_deliveredAt = Some 1000, m_readAt = None, m_error = None,
          m_metadata = Some (None, None), m_createdAt = 1000, m_updatedAt = 1000\<rparr>"

definition ex_store_done :: Store where
  "ex_store_done = \<lparr>tasks = [ex_task\<lparr>t_status := COMPLETED, t_completedAt := Some 1000, t_updatedAt := 1000\<rparr>],
          messages = [ex_message], webhooks = [], devices = []\<rparr>"

text \<open>The message of that store after the socket handler has marked it read at time 1500.\<close>

definition ex_store_read :: Store where
  "ex_store_read = message_status ''m1'' READ 1500 ex_store_done"

text \<open>A subscription that has failed twice in a row, with the default maximum of 3.\<close>

definition ex_webhook :: Webhook where
  "ex_webhook = \<lparr>w_id = ''w1'', w_userId = ''u1'', w_url = ''https://example.com/hook'',
     w_events = [''task.completed''], w_secret = ''secret'', w_isActive = True,
     w_lastTriggered = None, w_failureCount = 2, w_updatedAt = 0\<rparr>"

definition ex_hooks :: Store where
  "ex_hooks = \<lparr>tasks = [], messages = [], webhooks = [ex_webhook], devices = []\<rparr>"

text \<open>The same task before any worker or device has taken it, and a transport result.\<close>

definition ex_task_pending :: Task where
  "ex_task_pending = ex_task\<lparr>t_status := PENDING, t_executedAt := None, t_updatedAt := 100\<rparr>"

definition ex_store_pending :: Store where
  "ex_store_pending = \<lparr>tasks = [ex_task_pending], messages = [], webhooks = [], devices = []\<rparr>"

definition ex_result :: json where
  "ex_result = ''{success:true}''"

text \<open>
  A device of user u1 and four pending tasks for it: priorities 5, 9, 5 and 10; the third
  is scheduled for time 900, the fourth for time 5000.
\<close>

definition ex_device :: Device where
  "ex_device = \<lparr>dv_id = ''d1'', dv_userId = ''u1'', dv_phoneNumber = ''5511999990000'',
     dv_deviceName = ''MobZap Device'', dv_deviceType = NORMAL, dv_status = ACTIVE,
     dv_lastSeen = None, dv_isConnected = False, dv_batteryLevel = None,
     dv_isCharging = None\<rparr>"

definition ex_device_data :: MobZapDevice where
  "ex_device_data = \<lparr>phone_normal = Some ''5511999990000'', phone_business = None,
     battery_level = Some 80, is_charging = Some False, device_model = None\<rparr>"

definition ex_task_a :: Task where
  "ex_task_a = ex_task_pending\<lparr>t_id := ''a'', t_priority := 5, t_createdAt := 100\<rparr>"

definition ex_task_b :: Task where
  "ex_task_b = ex_task_pending\<lparr>t_id := ''b'', t_priority := 9, t_createdAt := 300\<rparr>"

definition ex_task_c :: Task where
  "ex_task_c = ex_task_pending\<lparr>t_id := ''c'', t_priority := 5, t_createdAt := 50,
                               t_scheduledAt := Some 900\<rparr>"

definition ex_task_d :: Task where
  "ex_task_d = ex_task_pending\<lparr>t_id := ''d'', t_priority := 10, t_createdAt := 10,
                               t_scheduledAt := Some 5000\<rparr>"

definition ex_store_fetch :: Store where
  "ex_store_fetch = \<lparr>tasks = [ex_task_a, ex_task_b, ex_task_c, ex_task_d], messages = [],
                      webhooks = [], devices = [ex_device]\<rparr>"

text \<open>A task of the seventh member of \<^verbatim>\<open>enum TaskType\<close>, and a message task without text.\<close>

definition ex_task_scheduled :: Task where
  "ex_task_scheduled = ex_task_pending\<lparr>t_type := SCHEDULED_MESSAGE\<rparr>"

definition ex_store_scheduled :: Store where
  "ex_store_scheduled = \<lparr>tasks = [ex_task_scheduled], messages = [], webhooks = [],
                          devices = [ex_device]\<rparr>"

definition ex_task_no_text :: Task where
  "ex_task_no_text = ex_task_pending\<lparr>t_data := ex_data\<lparr>d_message := None\<rparr>\<rparr>"

text \<open>Twelve pending tasks for the device, created at times 0 to 11.\<close>



definition ex_tie_a_first :: "Task \<Rightarrow> int" where
  "ex_tie_a_first t = (if t_id t = ''a'' then 0 else 1)"


text \<open>A message task whose phone number is a JSON number, not a string.\<close>

definition ex_task_number :: Task where
  "ex_task_number = ex_task_pending\<lparr>t_data := ex_data\<lparr>d_phoneNumber := Some (JNum 5511999887766)\<rparr>\<rparr>"

definition ex_store_many :: Store where
  "ex_store_many =
     \<lparr>tasks = map (\<lambda>i. ex_task_pending\<lparr>t_id := replicate (Suc i) (CHR ''x''),
                                         t_createdAt := int i\<rparr>) [0..<12],
      messages = [], webhooks = [], devices = [ex_device]\<rparr>"

section \<open>Properties\<close>

subsection \<open>Destination normalisation\<close>

lemma formatPhoneNumber_digits: "filter isDigit (formatPhoneNumber p) = formatPhoneNumber p"
  by (simp add: formatPhoneNumber_def Let_def isDigit_def)

lemma formatPhoneNumber_prefix: "startsWith (formatPhoneNumber p) ''55''"
  by (simp add: formatPhoneNumber_def Let_def startsWith_def)

text \<open>
  C8. The destination normalisation is idempotent: for every input string, normalising
  twice gives the same result as normalising once, so normalising an identifier that is
  already normalised changes nothing.
\<close>

theorem formatPhoneNumber_idempotent:
  "formatPhoneNumber (formatPhoneNumber p) = formatPhoneNumber p"
proof -
  have "formatPhoneNumber (formatPhoneNumber p) =
        (if \<not> startsWith (formatPhoneNumber p) ''55''
         then ''55'' @ formatPhoneNumber p else formatPhoneNumber p)"
    unfolding formatPhoneNumber_def [of "formatPhoneNumber p"] Let_def
    by (simp only: formatPhoneNumber_digits)
  then show ?thesis
    by (simp add: formatPhoneNumber_prefix)
qed

subsection \<open>Reconciling the same outcome twice\<close>

lemma set_if_defined_twice: "set_if_defined v (set_if_defined v old) = set_if_defined v old"
  by (cases v) (simp_all add: set_if_defined_def)

lemma find_map_preserved:
  assumes "\<And>x. P (F x) = P x"
  shows "find P (map F xs) = map_option F (find P xs)"
  using assms by (induction xs) simp_all

lemma filter_map_preserved:
  assumes "\<And>x. P (F x) = P x"
  shows "filter P (map F xs) = map F (filter P xs)"
  using assms by (induction xs) simp_all

lemma find_task_update:
  assumes "\<And>t. t_id (f t) = t_id t" "\<And>t. t_userId (f t) = t_userId t"
  shows "find (\<lambda>t. t_id t = tid \<and> t_userId t = u) (task_update tid' f now ts) =
         map_option (\<lambda>t. if t_id t = tid' then (f t)\<lparr>t_updatedAt := now\<rparr> else t)
           (find (\<lambda>t. t_id t = tid \<and> t_userId t = u) ts)"
  unfolding task_update_def
  by (rule find_map_preserved) (simp add: assms)

lemma callback_task_data_keys [simp]:
  "t_id (callback_task_data cb now t) = t_id t"
  "t_userId (callback_task_data cb now t) = t_userId t"
  "t_type (callback_task_data cb now t) = t_type t"
  "t_data (callback_task_data cb now t) = t_data t"
  "t_deviceId (callback_task_data cb now t) = t_deviceId t"
  by (simp_all add: callback_task_data_def)

lemma callback_task_data_twice:
  "(callback_task_data cb now2 ((callback_task_data cb now1 t)\<lparr>t_updatedAt := now1\<rparr>))
      \<lparr>t_updatedAt := now2\<rparr>
   = (callback_task_data cb now2 t)\<lparr>t_updatedAt := now2\<rparr>"
  by (simp add: callback_task_data_def set_if_defined_twice)

lemma task_update_twice:
  "task_update tid (callback_task_data cb now2) now2
     (task_update tid (callback_task_data cb now1) now1 ts)
   = task_update tid (callback_task_data cb now2) now2 ts"
  by (simp add: task_update_def callback_task_data_twice)

lemma task_update_clock:
  "map task_without_clock (task_update tid (callback_task_data cb now2) now2 ts)
   = map task_without_clock (task_update tid (callback_task_data cb now1) now1 ts)"
  by (simp add: task_update_def task_without_clock_def callback_task_data_def)

lemma callback_message_data_keys [simp]:
  "m_id (callback_message_data cb now m) = m_id m"
  "m_taskId (callback_message_data cb now m) = m_taskId m"
  by (simp_all add: callback_message_data_def)

lemma callback_message_data_twice:
  "message_without_clock
     ((callback_message_data cb now2 ((callback_message_data cb now1 m)\<lparr>m_updatedAt := now1\<rparr>))
        \<lparr>m_updatedAt := now2\<rparr>)
   = message_without_clock ((callback_message_data cb now1 m)\<lparr>m_updatedAt := now1\<rparr>)"
  by (simp add: callback_message_data_def message_without_clock_def set_if_defined_twice
           split: option.splits)

lemma callback_message_data_twice_same:
  "(callback_message_data cb now ((callback_message_data cb now m)\<lparr>m_updatedAt := now\<rparr>))
      \<lparr>m_updatedAt := now\<rparr>
   = (callback_message_data cb now m)\<lparr>m_updatedAt := now\<rparr>"
  by (simp add: callback_message_data_def set_if_defined_twice split: option.splits)

lemma message_update_twice:
  "map message_without_clock
     (message_update mid (callback_message_data cb now2) now2
        (message_update mid (callback_message_data cb now1) now1 ms))
   = map message_without_clock (message_update mid (callback_message_data cb now1) now1 ms)"
  by (simp add: message_update_def callback_message_data_twice)

lemma message_update_twice_same:
  "message_update mid (callback_message_data cb now) now
        (message_update mid (callback_message_data cb now) now ms)
   = message_update mid (callback_message_data cb now) now ms"
  by (simp add: message_update_def callback_message_data_twice_same)

lemma filter_message_update:
  "filter (\<lambda>m. m_taskId m = k) (message_update mid (callback_message_data cb now) now ms) =
   map (\<lambda>m. if m_id m = mid then (callback_message_data cb now m)\<lparr>m_updatedAt := now\<rparr> else m)
     (filter (\<lambda>m. m_taskId m = k) ms)"
  unfolding message_update_def
  by (rule filter_map_preserved) simp

text \<open>What \<open>findFirst\<close> returns, whatever the database's choice.\<close>

lemma findFirst_None: "filter P rows = [] \<Longrightarrow> findFirst pick P rows = None"
  by (simp add: findFirst_def)

lemma findFirst_single: "filter P rows = [x] \<Longrightarrow> findFirst pick P rows = Some x"
  by (simp add: findFirst_def)

lemma findFirst_Some:
  assumes "findFirst pick P rows = Some x"
  shows "x \<in> set rows \<and> P x"
proof -
  from assms obtain c cs where cs: "filter P rows = c # cs"
    and x: "x = (c # cs) ! (pick mod length (c # cs))"
    by (auto simp: findFirst_def split: list.splits)
  have "pick mod length (c # cs) < length (c # cs)"
    by simp
  then have "x \<in> set (c # cs)"
    unfolding x by (rule nth_mem)
  then have "x \<in> set (filter P rows)"
    by (simp only: cs)
  then show ?thesis by simp
qed

lemma findFirst_None_iff: "findFirst pick P rows = None \<longleftrightarrow> filter P rows = []"
  by (simp add: findFirst_def split: list.splits)

lemma message_create_appends:
  assumes "message_create fresh userId dev tid phone mt content url status delivered now ms
             = Inr (m, ms')"
  shows "ms' = ms @ [m] \<and> m_id m = fresh \<and> m_taskId m = tid \<and> m_status m = status"
  using assms
  by (auto simp: message_create_def Let_def split: option.splits sum.splits if_splits)

lemma find_or_create_cases:
  assumes "callback_find_or_create pick userId task taskId now fresh ms = Inr (m, ms')"
  shows "(findFirst pick (\<lambda>m. m_taskId m = Some taskId) ms = Some m \<and> ms' = ms)
       \<or> (filter (\<lambda>m. m_taskId m = Some taskId) ms = [] \<and> ms' = ms @ [m]
          \<and> m_id m = fresh \<and> m_taskId m = Some taskId \<and> m_status m = MSG_PENDING)"
proof (cases "findFirst pick (\<lambda>m. m_taskId m = Some taskId) ms")
  case (Some a)
  with assms show ?thesis by (simp add: callback_find_or_create_def)
next
  case None
  then have no: "filter (\<lambda>m. m_taskId m = Some taskId) ms = []"
    by (simp add: findFirst_None_iff)
  from assms None obtain mt where
    "message_create fresh userId (t_deviceId task) (Some taskId) (d_phoneNumber (t_data task)) mt
       (js_or (d_message (t_data task)) (d_caption (t_data task))) (d_mediaUrl (t_data task))
       MSG_PENDING None now ms = Inr (m, ms')"
    by (auto simp: callback_find_or_create_def split: sum.splits)
  from message_create_appends [OF this] no show ?thesis
    by simp
qed

lemma find_or_create_member:
  assumes "callback_find_or_create pick userId task taskId now fresh ms = Inr (m, ms')"
  shows "m \<in> set ms' \<and> m_taskId m = Some taskId"
  using find_or_create_cases [OF assms] findFirst_Some [of pick "\<lambda>m. m_taskId m = Some taskId" ms m]
  by auto

lemma find_or_create_unique:
  assumes foc: "callback_find_or_create pick userId task taskId now fresh ms = Inr (m, ms')"
      and uniq: "length (filter (\<lambda>m. m_taskId m = Some taskId) ms) \<le> 1"
  shows "filter (\<lambda>m. m_taskId m = Some taskId) ms' = [m]"
  using find_or_create_cases [OF foc]
proof
  assume found: "findFirst pick (\<lambda>m. m_taskId m = Some taskId) ms = Some m \<and> ms' = ms"
  then obtain c cs where cs: "filter (\<lambda>m. m_taskId m = Some taskId) ms = c # cs"
    and m: "m = (c # cs) ! (pick mod length (c # cs))"
    by (auto simp: findFirst_def split: list.splits)
  from uniq cs have "cs = []" by simp
  with cs m found show ?thesis by simp
next
  assume "filter (\<lambda>m. m_taskId m = Some taskId) ms = [] \<and> ms' = ms @ [m]
          \<and> m_id m = fresh \<and> m_taskId m = Some taskId \<and> m_status m = MSG_PENDING"
  then show ?thesis by simp
qed

lemma pc_tasks:
  "tasks (snd (processCallback pick userId cb now fresh s)) =
     (case find (\<lambda>t. t_id t = cb_taskId cb \<and> t_userId t = userId) (tasks s) of
        None \<Rightarrow> tasks s
      | Some task \<Rightarrow> task_update (cb_taskId cb) (callback_task_data cb now) now (tasks s))"
  by (simp add: processCallback_def Let_def split: option.splits sum.splits prod.splits)

lemma processCallback_twice:
  assumes first: "processCallback pick1 userId cb now1 fresh1 s = (None, s1)"
      and second: "processCallback pick2 userId cb now2 fresh2 s1 = (r2, s2)"
      and uniq: "length (filter (\<lambda>m. m_taskId m = Some (cb_taskId cb)) (messages s)) \<le> 1"
  shows "r2 = None
       \<and> map task_without_clock (tasks s2) = map task_without_clock (tasks s1)
       \<and> map message_without_clock (messages s2) = map message_without_clock (messages s1)
       \<and> (now2 = now1 \<longrightarrow> tasks s2 = tasks s1 \<and> messages s2 = messages s1)"
proof (cases "find (\<lambda>t. t_id t = cb_taskId cb \<and> t_userId t = userId) (tasks s)")
  case None
  with first have "s1 = s" by (simp add: processCallback_def)
  with None second show ?thesis by (simp add: processCallback_def)
next
  case (Some task)
  let ?tid = "cb_taskId cb"
  let ?P = "\<lambda>t. t_id t = ?tid \<and> t_userId t = userId"
  let ?Q = "\<lambda>m. m_taskId m = Some ?tid"
  let ?ts1 = "task_update ?tid (callback_task_data cb now1) now1 (tasks s)"
  have ts1: "tasks s1 = ?ts1"
    using pc_tasks [of pick1 userId cb now1 fresh1 s] first Some by simp
  obtain task1 where found1: "find ?P (tasks s1) = Some task1"
    and same: "t_type task1 = t_type task" "t_data task1 = t_data task"
      "t_deviceId task1 = t_deviceId task"
    using Some by (auto simp: ts1 find_task_update)
  have ts2: "tasks s2 = task_update ?tid (callback_task_data cb now2) now2 (tasks s)"
    using pc_tasks [of pick2 userId cb now2 fresh2 s1] second found1
    by (simp add: ts1 task_update_twice)
  have T: "map task_without_clock (tasks s2) = map task_without_clock (tasks s1)"
    by (simp only: ts1 ts2 task_update_clock [of ?tid cb now2 "tasks s" now1])
  have T': "now2 = now1 \<longrightarrow> tasks s2 = tasks s1"
    by (simp add: ts1 ts2)
  show ?thesis
  proof (cases "t_type task = MESSAGE \<or> t_type task = MEDIA")
    case False
    with first Some have "messages s1 = messages s"
      by (auto simp: processCallback_def Let_def)
    moreover from False second found1 same have "messages s2 = messages s1 \<and> r2 = None"
      by (auto simp: processCallback_def Let_def)
    ultimately show ?thesis using T T' by simp
  next
    case True
    from first Some True obtain m ms where
      foc: "callback_find_or_create pick1 userId task ?tid now1 fresh1 (messages s) = Inr (m, ms)"
      and ms1: "messages s1 = (if cb_status cb = Completed \<or> cb_status cb = Failed
                   then message_update (m_id m) (callback_message_data cb now1) now1 ms else ms)"
      by (auto simp: processCallback_def Let_def split: sum.splits prod.splits)
    have only: "filter ?Q ms = [m]"
      using foc uniq by (rule find_or_create_unique)
    have "\<exists>m1. filter ?Q (messages s1) = [m1] \<and> m_id m1 = m_id m"
    proof (cases "cb_status cb = Completed \<or> cb_status cb = Failed")
      case True
      then show ?thesis by (simp add: ms1 filter_message_update only)
    next
      case False
      then show ?thesis by (simp add: ms1 only)
    qed
    then obtain m1 where only1: "filter ?Q (messages s1) = [m1]" and id1: "m_id m1 = m_id m"
      by blast
    have foc2: "callback_find_or_create pick2 userId task1 ?tid now2 fresh2 (messages s1)
                  = Inr (m1, messages s1)"
      using findFirst_single [OF only1, of pick2] by (simp add: callback_find_or_create_def)
    from second found1 same True foc2 have r2: "r2 = None"
      and ms2: "messages s2 = (if cb_status cb = Completed \<or> cb_status cb = Failed
                   then message_update (m_id m) (callback_message_data cb now2) now2 (messages s1)
                   else messages s1)"
      by (auto simp: processCallback_def Let_def id1)
    have M: "map message_without_clock (messages s2) = map message_without_clock (messages s1)"
      by (simp add: ms2 ms1 message_update_twice)
    have M': "now2 = now1 \<longrightarrow> messages s2 = messages s1"
      by (simp add: ms2 ms1 message_update_twice_same)
    show ?thesis using r2 T T' M M' by simp
  qed
qed

lemmas example_defs =
  ex_store_def ex_store_done_def ex_task_def ex_data_def ex_message_def ex_callback_def
  post_ok_def post_fails_def

lemmas callback_defs =
  processCallback_def task_update_def callback_task_data_def callback_find_or_create_def
  callback_messageType_def findFirst_def message_create_def string_column_def
  optional_string_column_def message_update_def callback_message_data_def triggerWebhook_def
  webhook_selected_def webhook_deliver_def webhook_update_def
  js_or_def js_truthy_def set_if_defined_def Let_def

lemma processCallback_example:
  "processCallback 0 ''u1'' ex_callback 1000 ''m1'' ex_store = (None, ex_store_done)"
  by (simp add: example_defs callback_defs)

text \<open>
  C1, as stated, fails. \<open>processCallback\<close> never looks at the task's current status: a
  second call with the same completed outcome, one second later, stamps \<^verbatim>\<open>completedAt\<close>
  again, so the stored task differs from the one the first call left. In
  \<open>updateTaskStatus\<close> a second \<^verbatim>\<open>COMPLETED\<close> for a message task inserts a second Message.
\<close>

theorem reconcile_twice_counterexample:
  "t_status (hd (tasks (snd (processCallback 0 ''u1'' ex_callback 1000 ''m1'' ex_store))))
     = COMPLETED
   \<and> tasks (snd (processCallback 0 ''u1'' ex_callback 2000 ''m2''
                 (snd (processCallback 0 ''u1'' ex_callback 1000 ''m1'' ex_store))))
     \<noteq> tasks (snd (processCallback 0 ''u1'' ex_callback 1000 ''m1'' ex_store))
   \<and> length (messages (snd (updateTaskStatus post_ok 3 ''t1'' ''u1'' COMPLETED None None 1000
                 ''m1'' ex_store))) = 1
   \<and> length (messages (snd (updateTaskStatus post_ok 3 ''t1'' ''u1'' COMPLETED None None 2000
                 ''m2'' (snd (updateTaskStatus post_ok 3 ''t1'' ''u1'' COMPLETED None None 1000
                 ''m1'' ex_store))))) = 2"
  by (simp add: example_defs callback_defs updateTaskStatus_def)

text \<open>
  C1, amended. For a task that has at most one Message: when \<open>processCallback\<close> has
  returned normally for a callback, a second call with the same callback returns normally
  too, whichever choices the database makes, and the stored tasks and messages after it
  are those the first call left, except for the columns stamped from the clock
  (\<^verbatim>\<open>completedAt\<close> and \<^verbatim>\<open>updatedAt\<close> of the task, \<^verbatim>\<open>deliveredAt\<close> and \<^verbatim>\<open>updatedAt\<close> of the
  message); a second call at the same clock value leaves tasks and messages identical.
\<close>

theorem processCallback_repeated:
  assumes "processCallback pick1 userId cb now1 fresh1 s = (None, s')"
      and "length (filter (\<lambda>m. m_taskId m = Some (cb_taskId cb)) (messages s)) \<le> 1"
  shows "fst (processCallback pick2 userId cb now2 fresh2 s') = None
       \<and> map task_without_clock (tasks (snd (processCallback pick2 userId cb now2 fresh2 s')))
           = map task_without_clock (tasks s')
       \<and> map message_without_clock
             (messages (snd (processCallback pick2 userId cb now2 fresh2 s')))
           = map message_without_clock (messages s')
       \<and> tasks (snd (processCallback pick2 userId cb now1 fresh2 s')) = tasks s'
       \<and> messages (snd (processCallback pick2 userId cb now1 fresh2 s')) = messages s'"
proof -
  have a: "processCallback pick2 userId cb now2 fresh2 s' =
             (fst (processCallback pick2 userId cb now2 fresh2 s'),
              snd (processCallback pick2 userId cb now2 fresh2 s'))"
    by simp
  have b: "processCallback pick2 userId cb now1 fresh2 s' =
             (fst (processCallback pick2 userId cb now1 fresh2 s'),
              snd (processCallback pick2 userId cb now1 fresh2 s'))"
    by simp
  from processCallback_twice [OF assms(1) a assms(2)] processCallback_twice [OF assms(1) b assms(2)]
  show ?thesis by simp
qed

lemma example_one_message:
  "length (filter (\<lambda>m. m_taskId m = Some (cb_taskId ex_callback)) (messages ex_store)) \<le> 1"
  by (simp add: ex_store_def)

theorem processCallback_repeated_witness:
  "processCallback 0 ''u1'' ex_callback 1000 ''m1'' ex_store = (None, ex_store_done)
   \<and> length (filter (\<lambda>m. m_taskId m = Some (cb_taskId ex_callback)) (messages ex_store)) \<le> 1
   \<and> fst (processCallback 7 ''u1'' ex_callback 2000 ''m2'' ex_store_done) = None
   \<and> map task_without_clock (tasks (snd (processCallback 7 ''u1'' ex_callback 2000 ''m2''
            ex_store_done)))
       = map task_without_clock (tasks ex_store_done)
   \<and> map message_without_clock (messages (snd (processCallback 7 ''u1'' ex_callback 2000 ''m2''
            ex_store_done)))
       = map message_without_clock (messages ex_store_done)
   \<and> tasks (snd (processCallback 7 ''u1'' ex_callback 1000 ''m2'' ex_store_done))
       = tasks ex_store_done
   \<and> messages (snd (processCallback 7 ''u1'' ex_callback 1000 ''m2'' ex_store_done))
       = messages ex_store_done"
  using processCallback_repeated [OF processCallback_example example_one_message,
          of 7 2000 "''m2''"]
    processCallback_example example_one_message
  by simp

subsection \<open>Message status under callbacks\<close>

text \<open>
  C2, as stated, fails. A message that the socket handler has marked \<^verbatim>\<open>READ\<close> is set back
  to \<^verbatim>\<open>SENT\<close> by a (repeated) completed callback for its task, and the socket handler
  itself stores \<^verbatim>\<open>SENT\<close> over \<^verbatim>\<open>READ\<close> when told to.
\<close>

theorem message_status_regresses_counterexample:
  "map m_status (messages ex_store_read) = [READ]
   \<and> map m_status (messages (snd (processCallback 0 ''u1'' ex_callback 2000 ''m2''
          ex_store_read))) = [SENT]
   \<and> map m_status (messages (message_status ''m1'' SENT 2000 ex_store_read)) = [SENT]"
  by (simp add: ex_store_read_def message_status_def example_defs callback_defs)

lemma message_update_member:
  "m \<in> set ms \<Longrightarrow> (f m)\<lparr>m_updatedAt := now\<rparr> \<in> set (message_update (m_id m) f now ms)"
  by (force simp: message_update_def)

text \<open>
  C2, amended. The status a callback leaves on the message it writes depends on the
  callback alone, not on the status the message had. The message written is the one
  \<^verbatim>\<open>findFirst\<close> returned for the task, or the one just created when there was none. A
  completed callback for a message or media task stores \<^verbatim>\<open>DELIVERED\<close> on it when
  \<^verbatim>\<open>deliveryInfo.delivered\<close> holds and \<^verbatim>\<open>SENT\<close> otherwise, a failed callback stores
  \<^verbatim>\<open>FAILED\<close>, and a processing callback keeps the status (\<^verbatim>\<open>PENDING\<close> for the message it
  creates). The socket handler stores the status it is sent on the message it names.
\<close>

theorem callback_message_status:
  assumes ok: "fst (processCallback pick userId cb now fresh s) = None"
      and task: "find (\<lambda>t. t_id t = cb_taskId cb \<and> t_userId t = userId) (tasks s) = Some task"
      and type: "t_type task = MESSAGE \<or> t_type task = MEDIA"
      and m0: "m0 \<in> set (messages s2)"
  shows "(\<exists>m\<in>set (messages (snd (processCallback pick userId cb now fresh s))).
            m_taskId m = Some (cb_taskId cb)
          \<and> m_id m = (case findFirst pick (\<lambda>m. m_taskId m = Some (cb_taskId cb)) (messages s) of
                         None \<Rightarrow> fresh | Some old \<Rightarrow> m_id old)
          \<and> m_status m =
                (case cb_status cb of
                   Completed \<Rightarrow> (case cb_deliveryInfo cb of
                                   None \<Rightarrow> SENT
                                 | Some di \<Rightarrow> if di_delivered di then DELIVERED else SENT)
                 | Failed \<Rightarrow> MSG_FAILED
                 | Processing \<Rightarrow>
                     (case findFirst pick (\<lambda>m. m_taskId m = Some (cb_taskId cb)) (messages s) of
                        None \<Rightarrow> MSG_PENDING | Some old \<Rightarrow> m_status old)))
       \<and> (\<exists>m'\<in>set (messages (message_status (m_id m0) st now2 s2)).
             m_id m' = m_id m0 \<and> m_status m' = st)"
proof
  let ?tid = "cb_taskId cb"
  let ?Q = "\<lambda>m. m_taskId m = Some ?tid"
  let ?s' = "snd (processCallback pick userId cb now fresh s)"
  let ?target = "case cb_status cb of
                   Completed \<Rightarrow> (case cb_deliveryInfo cb of
                                   None \<Rightarrow> SENT
                                 | Some di \<Rightarrow> if di_delivered di then DELIVERED else SENT)
                 | Failed \<Rightarrow> MSG_FAILED
                 | Processing \<Rightarrow>
                     (case findFirst pick ?Q (messages s) of
                        None \<Rightarrow> MSG_PENDING | Some old \<Rightarrow> m_status old)"
  let ?id = "case findFirst pick ?Q (messages s) of None \<Rightarrow> fresh | Some old \<Rightarrow> m_id old"
  from ok task type obtain m ms where
    foc: "callback_find_or_create pick userId task ?tid now fresh (messages s) = Inr (m, ms)"
    and ms': "messages ?s' = (if cb_status cb = Completed \<or> cb_status cb = Failed
                 then message_update (m_id m) (callback_message_data cb now) now ms else ms)"
    by (auto simp: processCallback_def Let_def split: sum.splits prod.splits)
  have mem: "m \<in> set ms" and tid: "m_taskId m = Some ?tid"
    using find_or_create_member [OF foc] by simp_all
  have id: "m_id m = ?id" and old: "m_status m =
      (case findFirst pick ?Q (messages s) of None \<Rightarrow> MSG_PENDING | Some old \<Rightarrow> m_status old)"
    using find_or_create_cases [OF foc] by (auto simp: findFirst_None)
  show "\<exists>m\<in>set (messages ?s'). m_taskId m = Some ?tid \<and> m_id m = ?id \<and> m_status m = ?target"
  proof (cases "cb_status cb = Completed \<or> cb_status cb = Failed")
    case True
    let ?w = "(callback_message_data cb now m)\<lparr>m_updatedAt := now\<rparr>"
    have "?w \<in> set (messages ?s')"
      using True mem by (simp add: ms' message_update_member)
    moreover have "m_taskId ?w = Some ?tid" "m_id ?w = ?id"
      using tid id by simp_all
    moreover have "m_status ?w = ?target"
      using True by (auto simp: callback_message_data_def)
    ultimately show ?thesis by blast
  next
    case False
    then have p: "cb_status cb = Processing"
      by (cases "cb_status cb") simp_all
    have "m \<in> set (messages ?s')"
      using False mem by (simp add: ms')
    moreover have "m_status m = ?target"
      using p old by simp
    ultimately show ?thesis using tid id by blast
  qed
next
  from m0 show "\<exists>m'\<in>set (messages (message_status (m_id m0) st now2 s2)).
             m_id m' = m_id m0 \<and> m_status m' = st"
    by (auto simp: message_status_def message_update_def intro!: bexI [of _ "m0\<lparr>m_status := st,
                     m_deliveredAt := (if st = DELIVERED then Some now2 else m_deliveredAt m0),
                     m_readAt := (if st = READ then Some now2 else m_readAt m0),
                     m_updatedAt := now2\<rparr>"])
qed

theorem callback_message_status_witness:
  "fst (processCallback 0 ''u1'' ex_callback 2000 ''m2'' ex_store_read) = None
   \<and> find (\<lambda>t. t_id t = cb_taskId ex_callback \<and> t_userId t = ''u1'') (tasks ex_store_read)
       = Some (hd (tasks ex_store_read))
   \<and> t_type (hd (tasks ex_store_read)) = MESSAGE
   \<and> hd (messages ex_store_read) \<in> set (messages ex_store_read)
   \<and> m_status (hd (messages ex_store_read)) = READ
   \<and> (\<exists>m\<in>set (messages (snd (processCallback 0 ''u1'' ex_callback 2000 ''m2''
                 ex_store_read))).
          m_taskId m = Some ''t1'' \<and> m_id m = ''m1'' \<and> m_status m = SENT)
   \<and> (\<exists>m'\<in>set (messages (message_status ''m1'' DELIVERED 2500 ex_store_read)).
         m_id m' = ''m1'' \<and> m_status m' = DELIVERED)"
proof -
  have h1: "fst (processCallback 0 ''u1'' ex_callback 2000 ''m2'' ex_store_read) = None"
    by (simp add: ex_store_read_def message_status_def example_defs callback_defs)
  have h2: "find (\<lambda>t. t_id t = cb_taskId ex_callback \<and> t_userId t = ''u1'') (tasks ex_store_read)
       = Some (hd (tasks ex_store_read))"
    by (simp add: ex_store_read_def message_status_def message_update_def example_defs)
  have h3: "t_type (hd (tasks ex_store_read)) = MESSAGE \<or> t_type (hd (tasks ex_store_read)) = MEDIA"
    by (simp add: ex_store_read_def message_status_def message_update_def example_defs)
  have h4: "hd (messages ex_store_read) \<in> set (messages ex_store_read)"
    by (simp add: ex_store_read_def message_status_def message_update_def example_defs)
  have h5: "m_id (hd (messages ex_store_read)) = ''m1''"
           "m_status (hd (messages ex_store_read)) = READ"
    by (simp_all add: ex_store_read_def message_status_def message_update_def example_defs)
  have h6: "cb_status ex_callback = Completed" "cb_deliveryInfo ex_callback = None"
           "cb_taskId ex_callback = ''t1''"
    by (simp_all add: ex_callback_def)
  have h7: "t_type (hd (tasks ex_store_read)) = MESSAGE"
    by (simp add: ex_store_read_def message_status_def message_update_def example_defs)
  have h8: "findFirst 0 (\<lambda>m. m_taskId m = Some ''t1'') (messages ex_store_read)
              = Some (hd (messages ex_store_read))"
    by (simp add: findFirst_def ex_store_read_def message_status_def message_update_def
          example_defs)
  from callback_message_status [OF h1 h2 h3 h4, of DELIVERED 2500]
  show ?thesis
    using h1 h2 h4 h5 h6 h7 h8 by simp
qed

subsection \<open>Webhook failure threshold\<close>

text \<open>
  C9 at a subscription with two failures and the maximum 3: the third failure in a row
  brings the counter to 3, the maximum, and the subscription is still active and still
  selected for the next event; only the fourth failure, with the counter at 4, switches it
  off. The test compares the count read before the increment.
\<close>

theorem webhook_threshold_example:
  "map w_failureCount
     (webhooks (triggerWebhook post_fails 3 ''u1'' ''task.completed'' 1000 ex_hooks)) = [3]
   \<and> map w_isActive
       (webhooks (triggerWebhook post_fails 3 ''u1'' ''task.completed'' 1000 ex_hooks)) = [True]
   \<and> webhook_attempts ''u1'' ''task.completed''
        (triggerWebhook post_fails 3 ''u1'' ''task.completed'' 1000 ex_hooks) = [''w1'']
   \<and> map w_failureCount
       (webhooks (triggerWebhook post_fails 3 ''u1'' ''task.completed'' 2000
          (triggerWebhook post_fails 3 ''u1'' ''task.completed'' 1000 ex_hooks))) = [4]
   \<and> map w_isActive
       (webhooks (triggerWebhook post_fails 3 ''u1'' ''task.completed'' 2000
          (triggerWebhook post_fails 3 ''u1'' ''task.completed'' 1000 ex_hooks))) = [False]"
  by (simp add: ex_hooks_def ex_webhook_def post_fails_def triggerWebhook_def
      webhook_selected_def webhook_deliver_def webhook_update_def webhook_attempts_def Let_def)

subsection \<open>The message worker completes the task\<close>

lemmas queue_defs = messageQueue_process_def messageQueue_failed_def prisma_task_update_def
  job_of_def task_update_def message_create_def string_column_def optional_string_column_def
  triggerWebhook_def webhook_selected_def Let_def

text \<open>
  C3, as stated, fails for the message queue. The worker marks the task \<^verbatim>\<open>COMPLETED\<close>
  itself as soon as the send call has returned; after its run the task is not
  \<^verbatim>\<open>PROCESSING\<close>, and no callback has been received.
\<close>

theorem queue_completes_counterexample:
  "fst (messageQueue_process post_ok 3 (Inr ex_result) (job_of ex_task_pending) 1000 ''m1''
          ex_store_pending) = Inr ex_result
   \<and> map t_status (tasks (snd (messageQueue_process post_ok 3 (Inr ex_result)
          (job_of ex_task_pending) 1000 ''m1'' ex_store_pending))) = [COMPLETED]
   \<and> map t_status (tasks (snd (messageQueue_process post_ok 3 (Inr ex_result)
          (job_of ex_task_pending) 1000 ''m1'' ex_store_pending))) \<noteq> [PROCESSING]"
  by (simp add: ex_task_pending_def ex_store_pending_def example_defs queue_defs)

lemma triggerWebhook_fields [simp]:
  "tasks (triggerWebhook post maxR u e now s) = tasks s"
  "messages (triggerWebhook post maxR u e now s) = messages s"
  by (simp_all add: triggerWebhook_def)

lemma message_create_ok:
  assumes "fresh \<notin> set (map m_id ms)"
      and "optional_string_column content = Inr content'"
      and "optional_string_column mediaUrl = Inr mediaUrl'"
  shows "\<exists>m. message_create fresh userId (Some dev) taskId (Some (JStr phone)) (Some mt) content
              mediaUrl status deliveredAt now ms = Inr (m, ms @ [m])
            \<and> m_id m = fresh \<and> m_taskId m = taskId \<and> m_status m = status"
  using assms unfolding message_create_def Let_def by (simp add: string_column_def)

lemma task_update_ids: "map t_id (task_update tid f now ts) = map t_id ts"
  if "\<And>t. t_id (f t) = t_id t"
  using that by (simp add: task_update_def)

lemma prisma_task_update_ok:
  "tid \<in> set (map t_id ts) \<Longrightarrow> prisma_task_update tid f now ts = Inr (task_update tid f now ts)"
  by (simp add: prisma_task_update_def)

text \<open>
  C3, amended. For a job of the message queue whose task exists, a send call that returns
  completes the task in the same run of the worker, provided the Message row can be
  created (the job has a device, its phone number is a string, its text is a string or
  missing, the new id is unused): the worker
  returns the result, the task is \<^verbatim>\<open>COMPLETED\<close> with \<^verbatim>\<open>completedAt\<close> and the result
  stored, and a Message with status \<^verbatim>\<open>SENT\<close> exists for it.
\<close>

theorem messageQueue_success_completes:
  assumes task: "j_taskId job \<in> set (map t_id (tasks s))"
      and dev: "j_deviceId job = Some dev"
      and phone: "d_phoneNumber (j_data job) = Some (JStr phone)"
      and msg: "optional_string_column (d_message (j_data job)) = Inr content"
      and fresh: "fresh \<notin> set (map m_id (messages s))"
  shows "fst (messageQueue_process post maxR (Inr result) job now fresh s) = Inr result
       \<and> (\<forall>t\<in>set (tasks (snd (messageQueue_process post maxR (Inr result) job now fresh s))).
             t_id t = j_taskId job \<longrightarrow>
               t_status t = COMPLETED \<and> t_completedAt t = Some now \<and> t_result t = Some result)
       \<and> (\<exists>t\<in>set (tasks (snd (messageQueue_process post maxR (Inr result) job now fresh s))).
             t_id t = j_taskId job)
       \<and> (\<exists>m\<in>set (messages (snd (messageQueue_process post maxR (Inr result) job now fresh s))).
             m_taskId m = Some (j_taskId job) \<and> m_status m = SENT)"
proof -
  let ?f1 = "\<lambda>t. t\<lparr>t_status := PROCESSING, t_executedAt := Some now\<rparr>"
  let ?f2 = "\<lambda>t. t\<lparr>t_status := COMPLETED, t_completedAt := Some now, t_result := Some result\<rparr>"
  let ?ts1 = "task_update (j_taskId job) ?f1 now (tasks s)"
  let ?ts2 = "task_update (j_taskId job) ?f2 now ?ts1"
  have ids1: "map t_id ?ts1 = map t_id (tasks s)"
    by (rule task_update_ids) simp
  have ids2: "map t_id ?ts2 = map t_id (tasks s)"
    by (simp add: task_update_ids)
  have u1: "prisma_task_update (j_taskId job) ?f1 now (tasks s) = Inr ?ts1"
    using task by (rule prisma_task_update_ok)
  have u2: "prisma_task_update (j_taskId job) ?f2 now ?ts1 = Inr ?ts2"
    using task by (intro prisma_task_update_ok) (simp only: ids1)
  have none: "optional_string_column None = Inr None"
    by (simp add: optional_string_column_def)
  from message_create_ok [OF fresh msg none] obtain m where
    mc: "message_create fresh (j_userId job) (Some dev) (Some (j_taskId job))
           (Some (JStr phone)) (Some TEXT) (d_message (j_data job)) None SENT (Some now)
           now (messages s) = Inr (m, messages s @ [m])"
    and m: "m_taskId m = Some (j_taskId job)" "m_status m = SENT"
    by blast
  have run: "messageQueue_process post maxR (Inr result) job now fresh s =
          (Inr result, triggerWebhook post maxR (j_userId job) ''message.sent'' now
                            (s\<lparr>tasks := ?ts2, messages := messages s @ [m]\<rparr>))"
    unfolding messageQueue_process_def u1 dev phone
    by (simp only: u2 mc sum.case prod.case)
  have fin: "\<forall>t\<in>set ?ts2. t_id t = j_taskId job \<longrightarrow>
               t_status t = COMPLETED \<and> t_completedAt t = Some now \<and> t_result t = Some result"
    by (auto simp: task_update_def)
  have "j_taskId job \<in> set (map t_id ?ts2)"
    using task by (simp only: ids2)
  then have ex: "\<exists>t\<in>set ?ts2. t_id t = j_taskId job"
    by auto
  show ?thesis
    unfolding run using fin ex m by simp
qed

theorem messageQueue_success_completes_witness:
  "j_taskId (job_of ex_task_pending) \<in> set (map t_id (tasks ex_store_pending))
   \<and> j_deviceId (job_of ex_task_pending) = Some ''d1''
   \<and> d_phoneNumber (j_data (job_of ex_task_pending)) = Some (JStr ''11999887766'')
   \<and> optional_string_column (d_message (j_data (job_of ex_task_pending))) = Inr (Some ''hi'')
   \<and> ''m1'' \<notin> set (map m_id (messages ex_store_pending))
   \<and> fst (messageQueue_process post_ok 3 (Inr ex_result) (job_of ex_task_pending) 1000 ''m1''
            ex_store_pending) = Inr ex_result
   \<and> t_status (hd (tasks (snd (messageQueue_process post_ok 3 (Inr ex_result)
                  (job_of ex_task_pending) 1000 ''m1'' ex_store_pending)))) = COMPLETED
   \<and> t_completedAt (hd (tasks (snd (messageQueue_process post_ok 3 (Inr ex_result)
                  (job_of ex_task_pending) 1000 ''m1'' ex_store_pending)))) = Some 1000
   \<and> t_result (hd (tasks (snd (messageQueue_process post_ok 3 (Inr ex_result)
                  (job_of ex_task_pending) 1000 ''m1'' ex_store_pending)))) = Some ex_result
   \<and> (\<exists>m\<in>set (messages (snd (messageQueue_process post_ok 3 (Inr ex_result)
                  (job_of ex_task_pending) 1000 ''m1'' ex_store_pending))).
         m_taskId m = Some (j_taskId (job_of ex_task_pending)) \<and> m_status m = SENT)"
proof -
  let ?s' = "snd (messageQueue_process post_ok 3 (Inr ex_result) (job_of ex_task_pending) 1000
                    ''m1'' ex_store_pending)"
  have h1: "j_taskId (job_of ex_task_pending) \<in> set (map t_id (tasks ex_store_pending))"
    by (simp add: job_of_def ex_store_pending_def)
  have h2: "j_deviceId (job_of ex_task_pending) = Some ''d1''"
    by (simp add: job_of_def ex_task_pending_def ex_task_def)
  have h3: "d_phoneNumber (j_data (job_of ex_task_pending)) = Some (JStr ''11999887766'')"
    by (simp add: job_of_def ex_task_pending_def ex_task_def ex_data_def)
  have h3': "optional_string_column (d_message (j_data (job_of ex_task_pending)))
               = Inr (Some ''hi'')"
    by (simp add: job_of_def ex_task_pending_def ex_task_def ex_data_def
          optional_string_column_def)
  have h4: "''m1'' \<notin> set (map m_id (messages ex_store_pending))"
    by (simp add: ex_store_pending_def)
  have row: "hd (tasks ?s') \<in> set (tasks ?s')"
    "t_id (hd (tasks ?s')) = j_taskId (job_of ex_task_pending)"
    by (simp_all add: ex_task_pending_def ex_store_pending_def example_defs queue_defs)
  note c = messageQueue_success_completes [OF h1 h2 h3 h3' h4, of post_ok 3 ex_result 1000]
  from c row have "t_status (hd (tasks ?s')) = COMPLETED
      \<and> t_completedAt (hd (tasks ?s')) = Some 1000 \<and> t_result (hd (tasks ?s')) = Some ex_result"
    by blast
  with c h1 h2 h3 h3' h4 show ?thesis
    by blast
qed

subsection \<open>Cancellation\<close>

lemma distinct_key_eq:
  "distinct (map f xs) \<Longrightarrow> x \<in> set xs \<Longrightarrow> y \<in> set xs \<Longrightarrow> f x = f y \<Longrightarrow> x = y"
  by (auto simp: distinct_map dest: inj_onD)

text \<open>
  C6. For a task of the store (ids are the primary key), a cancel request by its owner
  succeeds exactly when the task is \<^verbatim>\<open>PENDING\<close>, and then the task, and only it, becomes
  \<^verbatim>\<open>CANCELLED\<close>. In every other status, \<^verbatim>\<open>PROCESSING\<close> included, the request is rejected
  with the 404 answer "Task not found or cannot be cancelled" and the store is unchanged.
\<close>

theorem cancelTask_pending_only:
  assumes ids: "distinct (map t_id (tasks s))"
      and task: "task \<in> set (tasks s)"
  shows "cancelTask (t_id task) (t_userId task) now s =
           (if t_status task = PENDING
            then (Json 200 True ''Task cancelled successfully'',
                  s\<lparr>tasks := map (\<lambda>t. if t = task
                                      then task\<lparr>t_status := CANCELLED, t_updatedAt := now\<rparr>
                                      else t) (tasks s)\<rparr>)
            else (Json 404 False ''Task not found or cannot be cancelled'', s))"
proof (cases "t_status task = PENDING")
  case True
  let ?P = "\<lambda>t. t_id t = t_id task \<and> t_userId t = t_userId task \<and> t_status t = PENDING"
  have "?P task" using True by simp
  with task have "find ?P (tasks s) \<noteq> None"
    by (auto simp: find_None_iff)
  then obtain x where x: "find ?P (tasks s) = Some x" by blast
  have same: "task_update (t_id task) (\<lambda>t. t\<lparr>t_status := CANCELLED\<rparr>) now (tasks s) =
        map (\<lambda>t. if t = task then task\<lparr>t_status := CANCELLED, t_updatedAt := now\<rparr> else t) (tasks s)"
    unfolding task_update_def
    using distinct_key_eq [OF ids _ task] by (intro map_cong) auto
  show ?thesis
    using True x same by (simp add: cancelTask_def)
next
  case False
  let ?P = "\<lambda>t. t_id t = t_id task \<and> t_userId t = t_userId task \<and> t_status t = PENDING"
  have "\<forall>x\<in>set (tasks s). \<not> ?P x"
    using distinct_key_eq [OF ids _ task] False by auto
  then have "find ?P (tasks s) = None"
    by (simp add: find_None_iff)
  with False show ?thesis
    by (simp add: cancelTask_def)
qed

theorem cancelTask_pending_only_witness:
  "distinct (map t_id (tasks ex_store_pending))
   \<and> ex_task_pending \<in> set (tasks ex_store_pending)
   \<and> t_status ex_task_pending = PENDING
   \<and> cancelTask ''t1'' ''u1'' 1000 ex_store_pending =
       (Json 200 True ''Task cancelled successfully'',
        ex_store_pending\<lparr>tasks := [ex_task_pending\<lparr>t_status := CANCELLED, t_updatedAt := 1000\<rparr>]\<rparr>)
   \<and> distinct (map t_id (tasks ex_store))
   \<and> ex_task \<in> set (tasks ex_store)
   \<and> t_status ex_task = PROCESSING
   \<and> cancelTask ''t1'' ''u1'' 1000 ex_store =
       (Json 404 False ''Task not found or cannot be cancelled'', ex_store)"
proof -
  have p1: "distinct (map t_id (tasks ex_store_pending))"
    and p2: "ex_task_pending \<in> set (tasks ex_store_pending)"
    by (simp_all add: ex_store_pending_def)
  have q1: "distinct (map t_id (tasks ex_store))"
    and q2: "ex_task \<in> set (tasks ex_store)"
    by (simp_all add: ex_store_def)
  have ids: "t_id ex_task_pending = ''t1''" "t_userId ex_task_pending = ''u1''"
    "t_status ex_task_pending = PENDING"
    "t_id ex_task = ''t1''" "t_userId ex_task = ''u1''" "t_status ex_task = PROCESSING"
    by (simp_all add: ex_task_pending_def ex_task_def)
  from cancelTask_pending_only [OF p1 p2, of 1000] cancelTask_pending_only [OF q1 q2, of 1000]
  show ?thesis
    using p1 p2 q1 q2 ids by (simp add: ex_store_pending_def)
qed

subsection \<open>Claiming pending tasks\<close>

lemma claim_twice:
  "(claim now ((claim now t)\<lparr>t_updatedAt := now\<rparr>))\<lparr>t_updatedAt := now\<rparr> = (claim now t)\<lparr>t_updatedAt := now\<rparr>"
  by (simp add: claim_def)

lemma claim_id [simp]: "t_id (claim now t) = t_id t"
  by (simp add: claim_def)

lemma claim_all_updateMany:
  "claim_all now cs ts = task_updateMany (map t_id cs) (claim now) now ts"
proof (induction cs arbitrary: ts)
  case Nil
  show ?case by (simp add: claim_all_def task_updateMany_def)
next
  case (Cons c cs)
  have "claim_all now (c # cs) ts = claim_all now cs (task_update (t_id c) (claim now) now ts)"
    by (simp add: claim_all_def)
  also have "\<dots> = task_updateMany (map t_id cs) (claim now) now (task_update (t_id c) (claim now) now ts)"
    by (rule Cons.IH)
  also have "\<dots> = task_updateMany (map t_id (c # cs)) (claim now) now ts"
    by (simp add: task_updateMany_def task_update_def claim_twice)
  finally show ?case .
qed

lemma fetch_device_tasks:
  "fetch_device userId dd now fresh s = Inr (device, s1) \<Longrightarrow> tasks s1 = tasks s"
  by (auto simp: fetch_device_def Let_def split: if_splits option.splits)

lemma fetchTasks_tasks:
  "tasks (snd (fetchTasks tie userId dd now fresh s)) =
     (case fetch_device userId dd now fresh s of
        Inl e \<Rightarrow> tasks s
      | Inr (device, s1) \<Rightarrow>
          task_updateMany (map t_id (findPending tie userId (dv_id device) now (tasks s)))
            (claim now) now (tasks s))"
  by (auto simp: fetchTasks_def Let_def claim_all_updateMany fetch_device_tasks
           split: sum.splits option.splits prod.splits)

lemma getTasks_tasks:
  "\<exists>ids. (ids = [] \<or> (\<exists>dev. ids = map t_id (findPending tie userId dev now (tasks s))))
       \<and> tasks (snd (getTasks tie pick userId pn pb now s)) = task_updateMany ids (claim now) now (tasks s)"
proof (cases "findFirst pick (\<lambda>d. dv_userId d = userId
                     \<and> (case str_or pn pb of None \<Rightarrow> True | Some p \<Rightarrow> dv_phoneNumber d = p)
                     \<and> dv_status d = ACTIVE) (devices s)")
  case None
  then have "tasks (snd (getTasks tie pick userId pn pb now s)) = task_updateMany [] (claim now) now (tasks s)"
    by (simp add: getTasks_def task_updateMany_def)
  then show ?thesis by blast
next
  case (Some device)
  then have "tasks (snd (getTasks tie pick userId pn pb now s)) =
     task_updateMany (map t_id (findPending tie userId (dv_id device) now (tasks s))) (claim now) now (tasks s)"
    by (simp add: getTasks_def Let_def task_updateMany_def)
  then show ?thesis by blast
qed

lemma fetchTasks_tasks_ex:
  "\<exists>ids. (ids = [] \<or> (\<exists>dev. ids = map t_id (findPending tie userId dev now (tasks s))))
       \<and> tasks (snd (fetchTasks tie userId dd now fresh s)) = task_updateMany ids (claim now) now (tasks s)"
proof (cases "fetch_device userId dd now fresh s")
  case (Inl e)
  then have "tasks (snd (fetchTasks tie userId dd now fresh s)) = task_updateMany [] (claim now) now (tasks s)"
    by (simp add: fetchTasks_tasks task_updateMany_def)
  then show ?thesis by blast
next
  case (Inr p)
  then obtain device s1 where "fetch_device userId dd now fresh s = Inr (device, s1)"
    by (cases p) simp
  then have "tasks (snd (fetchTasks tie userId dd now fresh s)) =
     task_updateMany (map t_id (findPending tie userId (dv_id device) now (tasks s))) (claim now) now (tasks s)"
    by (simp add: fetchTasks_tasks)
  then show ?thesis by blast
qed

lemma findPending_subset:
  "set (findPending tie userId dev now ts) \<subseteq> {t \<in> set ts. pending_where userId dev now t}"
proof -
  have "set (findPending tie userId dev now ts) \<subseteq> set (sort_key (order_key tie) (filter (pending_where userId dev now) ts))"
    unfolding findPending_def by (rule set_take_subset)
  then show ?thesis by auto
qed

lemma findPending_length: "length (findPending tie userId dev now ts) \<le> 10"
  by (simp add: findPending_def)

text \<open>The rows that an update of the found tasks changes.\<close>

lemma updateMany_changed:
  assumes ids: "distinct (map t_id ts)"
      and sel: "ids = [] \<or> (\<exists>dev. ids = map t_id (findPending tie userId dev now ts))"
      and pair: "(t, t') \<in> set (zip ts (task_updateMany ids (claim now) now ts))"
      and changed: "t' \<noteq> t"
  shows "t_status t = PENDING \<and> t' = (claim now t)\<lparr>t_updatedAt := now\<rparr>
         \<and> (case t_scheduledAt t of None \<Rightarrow> True | Some at \<Rightarrow> at \<le> now)"
proof -
  from pair have t: "t \<in> set ts"
    by (rule set_zip_leftD)
  from pair have t': "t' = (if t_id t \<in> set ids then (claim now t)\<lparr>t_updatedAt := now\<rparr> else t)"
    unfolding task_updateMany_def by (auto simp: zip_map2 zip_same)
  with changed have inids: "t_id t \<in> set ids" and eq: "t' = (claim now t)\<lparr>t_updatedAt := now\<rparr>"
    by (auto split: if_splits)
  from inids sel obtain dev c where c: "c \<in> set (findPending tie userId dev now ts)" "t_id c = t_id t"
    by auto
  with findPending_subset [of tie userId dev now ts] have "c \<in> set ts" "pending_where userId dev now c"
    by auto
  with distinct_key_eq [OF ids _ t] c have "pending_where userId dev now t"
    by auto
  with eq show ?thesis
    by (simp add: pending_where_def)
qed

lemma filter_ids_length:
  assumes "distinct (map t_id ts)"
  shows "length (filter (\<lambda>t. t_id t \<in> set ids) ts) \<le> length ids"
proof -
  let ?xs = "map t_id (filter (\<lambda>t. t_id t \<in> set ids) ts)"
  have d: "distinct ?xs"
    using assms by (simp add: distinct_map_filter)
  have "length (filter (\<lambda>t. t_id t \<in> set ids) ts) = length ?xs" by simp
  also have "\<dots> = card (set ?xs)" by (rule distinct_card [OF d, symmetric])
  also have "\<dots> \<le> card (set ids)" by (rule card_mono) auto
  also have "\<dots> \<le> length ids" by (rule card_length)
  finally show ?thesis .
qed

lemma updateMany_changed_count:
  assumes ids: "distinct (map t_id ts)"
  shows "length (filter (\<lambda>(t, t'). t' \<noteq> t) (zip ts (task_updateMany ids f now ts))) \<le> length ids"
proof -
  have "length (filter (\<lambda>(t, t'). t' \<noteq> t) (zip ts (task_updateMany ids f now ts)))
      = length (filter (\<lambda>t. (if t_id t \<in> set ids then (f t)\<lparr>t_updatedAt := now\<rparr> else t) \<noteq> t) ts)"
    unfolding task_updateMany_def zip_map2 zip_same_conv_map
    by (simp add: filter_map o_def case_prod_unfold)
  also have "\<dots> \<le> length (filter (\<lambda>t. t_id t \<in> set ids) ts)"
  proof -
    have "filter (\<lambda>t. (if t_id t \<in> set ids then (f t)\<lparr>t_updatedAt := now\<rparr> else t) \<noteq> t) ts
        = filter (\<lambda>t. (f t)\<lparr>t_updatedAt := now\<rparr> \<noteq> t) (filter (\<lambda>t. t_id t \<in> set ids) ts)"
      by (auto intro: filter_cong)
    then show ?thesis by (metis length_filter_le)
  qed
  also have "\<dots> \<le> length ids"
    using ids by (rule filter_ids_length)
  finally show ?thesis .
qed

lemma order_key_le: "order_key tie a \<le> order_key tie b \<Longrightarrow> dispatch_before a b"
  by (auto simp: order_key_def dispatch_before_def)

lemma sorted_by_order_key:
  "sorted_wrt dispatch_before (sort_key (order_key tie) xs)"
proof -
  have "sorted (map (order_key tie) (sort_key (order_key tie) xs))"
    by (rule sorted_sort_key)
  then have "sorted_wrt (\<lambda>a b. order_key tie a \<le> order_key tie b)
               (sort_key (order_key tie) xs)"
    by (simp add: sorted_wrt_map)
  then show ?thesis
    by (rule sorted_wrt_mono_rel [rotated]) (rule order_key_le)
qed

lemma findPending_sorted: "sorted_wrt dispatch_before (findPending tie userId dev now ts)"
  unfolding findPending_def using sorted_by_order_key by (rule sorted_wrt_take)

lemma findPending_rest:
  assumes c: "c \<in> set (findPending tie userId dev now ts)"
      and t: "t \<in> set ts" "pending_where userId dev now t"
      and out: "t \<notin> set (findPending tie userId dev now ts)"
  shows "dispatch_before c t"
proof -
  let ?L = "sort_key (order_key tie) (filter (pending_where userId dev now) ts)"
  have "sorted_wrt dispatch_before (take 10 ?L @ drop 10 ?L)"
    using sorted_by_order_key [of tie "filter (pending_where userId dev now) ts"] by simp
  then have all: "\<forall>x\<in>set (take 10 ?L). \<forall>y\<in>set (drop 10 ?L). dispatch_before x y"
    by (simp only: sorted_wrt_append) blast
  have "t \<in> set ?L" using t by simp
  then have "t \<in> set (take 10 ?L) \<union> set (drop 10 ?L)"
    by (simp only: set_append [symmetric] append_take_drop_id)
  with out have "t \<in> set (drop 10 ?L)"
    by (simp add: findPending_def)
  with all c show ?thesis
    by (simp add: findPending_def)
qed

lemma findPending_in_order: "claimed_in_order now ts (findPending tie userId dev now ts)"
proof -
  have sub: "set (findPending tie userId dev now ts) \<subseteq> set ts"
    using findPending_subset [of tie userId dev now ts] by auto
  have rest: "dispatch_before c t"
    if "c \<in> set (findPending tie userId dev now ts)" "t \<in> set ts"
       "t \<notin> set (findPending tie userId dev now ts)" "eligible now t"
       "t_userId t = t_userId c" "t_deviceId t = t_deviceId c" for c t
  proof -
    from that(1) findPending_subset [of tie userId dev now ts]
    have "pending_where userId dev now c" by auto
    with that(4-6) have "pending_where userId dev now t"
      by (simp add: pending_where_def eligible_def)
    with that(1-3) show ?thesis
      by (intro findPending_rest)
  qed
  show ?thesis
    unfolding claimed_in_order_def using sub findPending_sorted rest by blast
qed

lemma claimed_in_order_Nil: "claimed_in_order now ts []"
  by (simp add: claimed_in_order_def)

lemma convert_id:
  "convertToMobZapFormat t dt = Inr (Some z) \<Longrightarrow> z_id z = t_id t"
  by (auto simp: convertToMobZapFormat_def baseTask_def Let_def
           split: TaskType.splits sum.splits)

lemma getTasks_format_id:
  "getTasks_format t dt = Some z \<Longrightarrow> z_id z = t_id t"
  by (auto simp: getTasks_format_def baseTask_def Let_def split: TaskType.splits)

lemma first_error_None:
  "first_error rs = None \<Longrightarrow> r \<in> set rs \<Longrightarrow> \<not> isl r"
  by (auto simp: first_error_def filter_empty_conv split: list.splits)

lemma fetch_out_ids:
  assumes "first_error (map (\<lambda>t. convertToMobZapFormat t dt) found) = None"
      and "None \<notin> set (map projr (map (\<lambda>t. convertToMobZapFormat t dt) found))"
  shows "map z_id (map the (map projr (map (\<lambda>t. convertToMobZapFormat t dt) found)))
         = map t_id found"
proof -
  have "z_id (the (projr (convertToMobZapFormat t dt))) = t_id t" if "t \<in> set found" for t
  proof -
    from that assms(1) have "\<not> isl (convertToMobZapFormat t dt)"
      by (intro first_error_None [of "map (\<lambda>t. convertToMobZapFormat t dt) found"]) simp_all
    moreover from that assms(2) have "projr (convertToMobZapFormat t dt) \<noteq> None"
      by force
    ultimately obtain z where "convertToMobZapFormat t dt = Inr (Some z)"
      by (cases "convertToMobZapFormat t dt") auto
    then show ?thesis
      by (simp add: convert_id)
  qed
  then show ?thesis by simp
qed

lemma getTasks_out_ids:
  "map z_id (map the (filter (\<lambda>x. x \<noteq> None) (map (\<lambda>t. getTasks_format t dt) found)))
   = map t_id (filter (\<lambda>t. getTasks_format t dt \<noteq> None) found)"
proof (induction found)
  case Nil
  show ?case by simp
next
  case (Cons t found)
  show ?case
  proof (cases "getTasks_format t dt")
    case None
    with Cons show ?thesis by simp
  next
    case (Some z)
    with Cons show ?thesis
      using getTasks_format_id [OF Some] by simp
  qed
qed

lemma fetchTasks_claims:
  "\<exists>claimed. claimed_in_order now (tasks s) claimed \<and> length claimed \<le> 10
     \<and> (claimed = [] \<or> (\<exists>dev. claimed = findPending tie userId dev now (tasks s)))
     \<and> tasks (snd (fetchTasks tie userId dd now fresh s))
         = task_updateMany (map t_id claimed) (claim now) now (tasks s)
     \<and> (\<forall>out. fst (fetchTasks tie userId dd now fresh s) = Inr out \<longrightarrow>
           map z_id out = map t_id claimed)"
proof (cases "fetch_device userId dd now fresh s")
  case (Inl e)
  then have "tasks (snd (fetchTasks tie userId dd now fresh s))
               = task_updateMany (map t_id []) (claim now) now (tasks s)"
    and "\<forall>out. fst (fetchTasks tie userId dd now fresh s) \<noteq> Inr out"
    by (simp_all add: fetchTasks_def task_updateMany_def)
  then show ?thesis
    using claimed_in_order_Nil [of now "tasks s"] by (intro exI [of _ "[]"]) simp
next
  case (Inr p)
  then obtain device s1 where fd: "fetch_device userId dd now fresh s = Inr (device, s1)"
    by (cases p) simp
  let ?found = "findPending tie userId (dv_id device) now (tasks s)"
  have ts: "tasks s1 = tasks s"
    using fd by (rule fetch_device_tasks)
  have st: "tasks (snd (fetchTasks tie userId dd now fresh s))
              = task_updateMany (map t_id ?found) (claim now) now (tasks s)"
    using fd by (simp add: fetchTasks_tasks)
  have out: "map z_id out = map t_id ?found"
    if "fst (fetchTasks tie userId dd now fresh s) = Inr out" for out
    using that fd ts fetch_out_ids [of "dv_deviceType device" ?found]
    by (auto simp: fetchTasks_def Let_def split: option.splits if_splits)
  show ?thesis
    using findPending_in_order [of now "tasks s" tie userId "dv_id device"]
      findPending_length [of tie userId "dv_id device" now "tasks s"] st out
    by (intro exI [of _ ?found]) blast
qed

lemma getTasks_claims:
  "\<exists>claimed. claimed_in_order now (tasks s) claimed \<and> length claimed \<le> 10
     \<and> (claimed = [] \<or> (\<exists>dev. claimed = findPending tie userId dev now (tasks s)))
     \<and> tasks (snd (getTasks tie pick userId pn pb now s))
         = task_updateMany (map t_id claimed) (claim now) now (tasks s)
     \<and> (\<forall>out. fst (getTasks tie pick userId pn pb now s) = Inr out \<longrightarrow>
           (\<exists>dt. map z_id out
                   = map t_id (filter (\<lambda>t. getTasks_format t dt \<noteq> None) claimed)))"
proof (cases "findFirst pick (\<lambda>d. dv_userId d = userId
                     \<and> (case str_or pn pb of None \<Rightarrow> True | Some p \<Rightarrow> dv_phoneNumber d = p)
                     \<and> dv_status d = ACTIVE) (devices s)")
  case None
  then have "tasks (snd (getTasks tie pick userId pn pb now s))
               = task_updateMany (map t_id []) (claim now) now (tasks s)"
    and "\<forall>out. fst (getTasks tie pick userId pn pb now s) \<noteq> Inr out"
    by (simp_all add: getTasks_def task_updateMany_def)
  then show ?thesis
    using claimed_in_order_Nil [of now "tasks s"] by (intro exI [of _ "[]"]) simp
next
  case (Some device)
  let ?found = "findPending tie userId (dv_id device) now (tasks s)"
  have st: "tasks (snd (getTasks tie pick userId pn pb now s))
              = task_updateMany (map t_id ?found) (claim now) now (tasks s)"
    using Some by (simp add: getTasks_def Let_def task_updateMany_def)
  have out: "\<exists>dt. map z_id out
                  = map t_id (filter (\<lambda>t. getTasks_format t dt \<noteq> None) ?found)"
    if "fst (getTasks tie pick userId pn pb now s) = Inr out" for out
    using that Some getTasks_out_ids [of "dv_deviceType device" ?found]
    by (auto simp: getTasks_def Let_def)
  show ?thesis
    using findPending_in_order [of now "tasks s" tie userId "dv_id device"]
      findPending_length [of tie userId "dv_id device" now "tasks s"] st out
    by (intro exI [of _ ?found]) blast
qed

lemmas fetch_example_defs =
  ex_store_fetch_def ex_task_a_def ex_task_b_def ex_task_c_def ex_task_d_def
  ex_task_pending_def ex_task_def ex_data_def ex_device_def ex_device_data_def

lemma fetch_example_status:
  "map t_status (tasks (snd (fetchTasks ex_tie_a_first ''u1'' ex_device_data 1000 ''d9'' ex_store_fetch)))
     = [PROCESSING, PROCESSING, PROCESSING, PENDING]"
  by code_simp

lemma fetch_example_out:
  "\<not> isl (fst (fetchTasks ex_tie_a_first ''u1'' ex_device_data 1000 ''d9'' ex_store_fetch))"
  "map z_id (projr (fst (fetchTasks ex_tie_a_first ''u1'' ex_device_data 1000 ''d9'' ex_store_fetch)))
     = [''b'', ''c'', ''a'']"
  by code_simp+

lemma fetch_example_distinct: "distinct (map t_id (tasks ex_store_fetch))"
  by (simp add: fetch_example_defs)

text \<open>
  C4. Every task row that a fetch by a device changes (through \<open>fetchTasks\<close> or through
  \<open>getTasks\<close>) was pending with \<^verbatim>\<open>scheduledAt\<close> null or not later than the time of the
  call, and becomes \<^verbatim>\<open>PROCESSING\<close> with \<^verbatim>\<open>executedAt\<close> that time; and \<open>createTask\<close> hands
  a task to the dispatch queue only when it has no \<^verbatim>\<open>scheduledAt\<close>. Task ids are the
  primary key of the table.
\<close>

theorem claim_not_before_schedule:
  assumes "distinct (map t_id (tasks s))"
  shows "(\<forall>(t, t') \<in> set (zip (tasks s) (tasks (snd (fetchTasks tie userId dd now fresh s)))).
            t' \<noteq> t \<longrightarrow> claimed_at now t t')
       \<and> (\<forall>(t, t') \<in> set (zip (tasks s) (tasks (snd (getTasks tie pick userId pn pb now s)))).
            t' \<noteq> t \<longrightarrow> claimed_at now t t')
       \<and> (\<forall>t \<in> set (createTask_enqueue task). t_scheduledAt t = None)"
proof -
  have row: "claimed_at now t t'"
    if "ids = [] \<or> (\<exists>dev. ids = map t_id (findPending tie userId dev now (tasks s)))"
       "(t, t') \<in> set (zip (tasks s) (task_updateMany ids (claim now) now (tasks s)))"
       "t' \<noteq> t" for ids t t'
    using updateMany_changed [OF assms that]
    by (simp add: claimed_at_def eligible_def claim_def)
  obtain ids1 where
    "ids1 = [] \<or> (\<exists>dev. ids1 = map t_id (findPending tie userId dev now (tasks s)))"
    "tasks (snd (fetchTasks tie userId dd now fresh s)) = task_updateMany ids1 (claim now) now (tasks s)"
    using fetchTasks_tasks_ex [where tie=tie and userId=userId and now=now and s=s and dd=dd and fresh=fresh] by blast
  then have a: "\<forall>(t, t') \<in> set (zip (tasks s) (tasks (snd (fetchTasks tie userId dd now fresh s)))).
            t' \<noteq> t \<longrightarrow> claimed_at now t t'"
    using row by auto
  obtain ids2 where
    "ids2 = [] \<or> (\<exists>dev. ids2 = map t_id (findPending tie userId dev now (tasks s)))"
    "tasks (snd (getTasks tie pick userId pn pb now s)) = task_updateMany ids2 (claim now) now (tasks s)"
    using getTasks_tasks [where tie=tie and pick=pick and userId=userId and now=now and s=s and pn=pn and pb=pb] by blast
  then have b: "\<forall>(t, t') \<in> set (zip (tasks s) (tasks (snd (getTasks tie pick userId pn pb now s)))).
            t' \<noteq> t \<longrightarrow> claimed_at now t t'"
    using row by auto
  have c: "\<forall>t \<in> set (createTask_enqueue task). t_scheduledAt t = None"
    by (simp add: createTask_enqueue_def)
  from a b c show ?thesis by blast
qed

lemma fetch_example_rows:
  "(ex_task_c, tasks (snd (fetchTasks ex_tie_a_first ''u1'' ex_device_data 1000 ''d9'' ex_store_fetch)) ! 2)
     \<in> set (zip (tasks ex_store_fetch)
               (tasks (snd (fetchTasks ex_tie_a_first ''u1'' ex_device_data 1000 ''d9'' ex_store_fetch))))"
  "tasks (snd (fetchTasks ex_tie_a_first ''u1'' ex_device_data 1000 ''d9'' ex_store_fetch)) ! 2 \<noteq> ex_task_c"
  "(ex_task_c, tasks (snd (getTasks ex_tie_a_first 0 ''u1'' (Some ''5511999990000'') None 1000 ex_store_fetch)) ! 2)
     \<in> set (zip (tasks ex_store_fetch)
               (tasks (snd (getTasks ex_tie_a_first 0 ''u1'' (Some ''5511999990000'') None 1000 ex_store_fetch))))"
  "tasks (snd (getTasks ex_tie_a_first 0 ''u1'' (Some ''5511999990000'') None 1000 ex_store_fetch)) ! 2
     \<noteq> ex_task_c"
  by code_simp+

theorem claim_not_before_schedule_witness:
  "distinct (map t_id (tasks ex_store_fetch))
   \<and> map t_scheduledAt (tasks ex_store_fetch) = [None, None, Some 900, Some 5000]
   \<and> map t_status (tasks (snd (fetchTasks ex_tie_a_first ''u1'' ex_device_data 1000 ''d9'' ex_store_fetch)))
       = [PROCESSING, PROCESSING, PROCESSING, PENDING]
   \<and> t_scheduledAt ex_task_c = Some 900
   \<and> claimed_at 1000 ex_task_c
        (tasks (snd (fetchTasks ex_tie_a_first ''u1'' ex_device_data 1000 ''d9'' ex_store_fetch)) ! 2)
   \<and> claimed_at 1000 ex_task_c
        (tasks (snd (getTasks ex_tie_a_first 0 ''u1'' (Some ''5511999990000'') None 1000 ex_store_fetch)) ! 2)
   \<and> createTask_enqueue ex_task_a = [ex_task_a]
   \<and> t_scheduledAt (hd (createTask_enqueue ex_task_a)) = None
   \<and> createTask_enqueue ex_task_d = []"
proof -
  have sched: "map t_scheduledAt (tasks ex_store_fetch) = [None, None, Some 900, Some 5000]"
    "t_scheduledAt ex_task_c = Some 900"
    by (simp_all add: fetch_example_defs)
  have enq: "createTask_enqueue ex_task_a = [ex_task_a]" "createTask_enqueue ex_task_d = []"
    by (simp_all add: createTask_enqueue_def fetch_example_defs)
  note c = claim_not_before_schedule [OF fetch_example_distinct,
         where tie=ex_tie_a_first and pick=0 and userId="''u1''" and dd=ex_device_data
           and now=1000 and fresh="''d9''" and pn="Some ''5511999990000''" and pb=None and task=ex_task_a]
  from c fetch_example_rows(1,2)
  have a: "claimed_at 1000 ex_task_c
        (tasks (snd (fetchTasks ex_tie_a_first ''u1'' ex_device_data 1000 ''d9'' ex_store_fetch)) ! 2)"
    by blast
  from c fetch_example_rows(3,4)
  have b: "claimed_at 1000 ex_task_c
        (tasks (snd (getTasks ex_tie_a_first 0 ''u1'' (Some ''5511999990000'') None 1000 ex_store_fetch)) ! 2)"
    by blast
  from c enq(1) have d: "t_scheduledAt (hd (createTask_enqueue ex_task_a)) = None"
    by simp
  from fetch_example_distinct sched fetch_example_status a b enq d show ?thesis
    by (intro conjI)
qed






text \<open>
  C10. One fetch changes at most 10 task rows and answers with at most 10 tasks, through
  \<open>fetchTasks\<close> and through \<open>getTasks\<close> alike.
\<close>

theorem fetch_at_most_ten:
  assumes "distinct (map t_id (tasks s))"
  shows "length (filter (\<lambda>(t, t'). t' \<noteq> t)
                   (zip (tasks s) (tasks (snd (fetchTasks tie userId dd now fresh s))))) \<le> 10
       \<and> length (case fst (fetchTasks tie userId dd now fresh s) of Inl e \<Rightarrow> [] | Inr out \<Rightarrow> out) \<le> 10
       \<and> length (filter (\<lambda>(t, t'). t' \<noteq> t)
                   (zip (tasks s) (tasks (snd (getTasks tie pick userId pn pb now s))))) \<le> 10
       \<and> length (case fst (getTasks tie pick userId pn pb now s) of Inl r \<Rightarrow> [] | Inr out \<Rightarrow> out) \<le> 10"
proof -
  obtain c1 :: "Task list" where c1: "length c1 \<le> 10"
    "tasks (snd (fetchTasks tie userId dd now fresh s))
       = task_updateMany (map t_id c1) (claim now) now (tasks s)"
    "\<forall>out. fst (fetchTasks tie userId dd now fresh s) = Inr out \<longrightarrow> map z_id out = map t_id c1"
    using fetchTasks_claims [where tie=tie and userId=userId and now=now and s=s and dd=dd and fresh=fresh] by blast
  obtain c2 :: "Task list" where c2: "length c2 \<le> 10"
    "tasks (snd (getTasks tie pick userId pn pb now s))
       = task_updateMany (map t_id c2) (claim now) now (tasks s)"
    "\<forall>out. fst (getTasks tie pick userId pn pb now s) = Inr out \<longrightarrow>
       (\<exists>dt. map z_id out = map t_id (filter (\<lambda>t. getTasks_format t dt \<noteq> None) c2))"
    using getTasks_claims [where tie=tie and pick=pick and userId=userId and now=now and s=s and pn=pn and pb=pb] by blast
  have a: "length (filter (\<lambda>(t, t'). t' \<noteq> t)
                   (zip (tasks s) (tasks (snd (fetchTasks tie userId dd now fresh s))))) \<le> 10"
    using updateMany_changed_count [OF assms, of "map t_id c1" "claim now" now] c1(1)
    by (simp add: c1(2))
  have b: "length (filter (\<lambda>(t, t'). t' \<noteq> t)
                   (zip (tasks s) (tasks (snd (getTasks tie pick userId pn pb now s))))) \<le> 10"
    using updateMany_changed_count [OF assms, of "map t_id c2" "claim now" now] c2(1)
    by (simp add: c2(2))
  have c: "length (case fst (fetchTasks tie userId dd now fresh s) of Inl e \<Rightarrow> [] | Inr out \<Rightarrow> out) \<le> 10"
  proof (cases "fst (fetchTasks tie userId dd now fresh s)")
    case (Inl e)
    then show ?thesis by simp
  next
    case (Inr out)
    with c1(3) have "map z_id out = map t_id c1"
      by simp
    then have "length out = length c1"
      by (rule map_eq_imp_length_eq)
    with Inr c1(1) show ?thesis by simp
  qed
  have d: "length (case fst (getTasks tie pick userId pn pb now s) of Inl r \<Rightarrow> [] | Inr out \<Rightarrow> out) \<le> 10"
  proof (cases "fst (getTasks tie pick userId pn pb now s)")
    case (Inl r)
    then show ?thesis by simp
  next
    case (Inr out)
    with c2(3) obtain dt where
      "map z_id out = map t_id (filter (\<lambda>t. getTasks_format t dt \<noteq> None) c2)"
      by blast
    then have "length out = length (filter (\<lambda>t. getTasks_format t dt \<noteq> None) c2)"
      by (rule map_eq_imp_length_eq)
    also have "\<dots> \<le> length c2" by (rule length_filter_le)
    finally show ?thesis using Inr c2(1) by simp
  qed
  from a b c d show ?thesis by (intro conjI)
qed

lemma many_example_distinct: "distinct (map t_id (tasks ex_store_many))"
  by code_simp

lemma many_example_lengths:
  "length (tasks ex_store_many) = 12"
  "length (projr (fst (fetchTasks ex_tie_a_first ''u1'' ex_device_data 1000 ''d9'' ex_store_many))) = 10"
  "\<not> isl (fst (fetchTasks ex_tie_a_first ''u1'' ex_device_data 1000 ''d9'' ex_store_many))"
  by code_simp+

theorem fetch_at_most_ten_witness:
  "distinct (map t_id (tasks ex_store_many))
   \<and> length (tasks ex_store_many) = 12
   \<and> length (projr (fst (fetchTasks ex_tie_a_first ''u1'' ex_device_data 1000 ''d9'' ex_store_many))) = 10
   \<and> length (filter (\<lambda>(t, t'). t' \<noteq> t)
               (zip (tasks ex_store_many)
                  (tasks (snd (fetchTasks ex_tie_a_first ''u1'' ex_device_data 1000 ''d9'' ex_store_many)))))
       \<le> 10
   \<and> length (case fst (fetchTasks ex_tie_a_first ''u1'' ex_device_data 1000 ''d9'' ex_store_many) of
               Inl e \<Rightarrow> [] | Inr out \<Rightarrow> out) \<le> 10
   \<and> length (filter (\<lambda>(t, t'). t' \<noteq> t)
               (zip (tasks ex_store_many)
                  (tasks (snd (getTasks ex_tie_a_first 0 ''u1'' (Some ''5511999990000'') None 1000
                     ex_store_many))))) \<le> 10
   \<and> length (case fst (getTasks ex_tie_a_first 0 ''u1'' (Some ''5511999990000'') None 1000 ex_store_many) of
               Inl r \<Rightarrow> [] | Inr out \<Rightarrow> out) \<le> 10"
  using fetch_at_most_ten [OF many_example_distinct,
          where tie=ex_tie_a_first and pick=0 and userId="''u1''" and dd=ex_device_data
           and now=1000 and fresh="''d9''" and pn="Some ''5511999990000''" and pb=None]
    many_example_distinct many_example_lengths
  by blast

subsection \<open>Translation failures\<close>

text \<open>
  C7, as stated, fails. A task of a category the translator does not know
  (\<^verbatim>\<open>SCHEDULED_MESSAGE\<close>) makes \<open>convertToMobZapFormat\<close> return \<^verbatim>\<open>null\<close>, not an error;
  \<open>getTasks\<close> answers with an empty list for it and marks it \<^verbatim>\<open>PROCESSING\<close> all the same;
  and a message task without its text is translated without any error.
\<close>

theorem translate_silent_counterexample:
  "convertToMobZapFormat ex_task_scheduled NORMAL = Inr None
   \<and> fst (getTasks ex_tie_a_first 0 ''u1'' (Some ''5511999990000'') None 1000
            ex_store_scheduled) = Inr []
   \<and> map t_status (tasks (snd (getTasks ex_tie_a_first 0 ''u1'' (Some ''5511999990000'') None
            1000 ex_store_scheduled))) = [PROCESSING]
   \<and> d_message (t_data ex_task_no_text) = None
   \<and> \<not> isl (convertToMobZapFormat ex_task_no_text NORMAL)
   \<and> convertToMobZapFormat ex_task_no_text NORMAL \<noteq> Inr None"
  by (intro conjI; code_simp)

text \<open>A phone number that is present but is a JSON number makes the translator throw.\<close>

lemma translate_number_example:
  "d_phoneNumber (t_data ex_task_number) = Some (JNum 5511999887766)"
  "convertToMobZapFormat ex_task_number NORMAL = Inl TypeError"
  by code_simp+

lemma formatPhoneNumber_any_error:
  "formatPhoneNumber_any v = Inl e \<longleftrightarrow> e = TypeError \<and> \<not> is_string v"
  by (auto simp: formatPhoneNumber_any_def is_string_def split: option.splits jv.splits)

lemma jv_string_None:
  "jv_string x = None \<longleftrightarrow> \<not> is_string (Some x)"
  "None = jv_string x \<longleftrightarrow> \<not> is_string (Some x)"
  by (cases x; simp add: is_string_def)+

lemma all_strings: "None \<in> set (map jv_string xs) \<longleftrightarrow> \<not> list_all (\<lambda>x. is_string (Some x)) xs"
  by (induction xs) (auto simp: jv_string_None)

lemma formatPhoneNumbers_any_error:
  "formatPhoneNumbers_any v = Inl e \<longleftrightarrow> e = TypeError \<and> \<not> is_string_list v"
proof (cases v)
  case None
  then show ?thesis
    by (auto simp: formatPhoneNumbers_any_def is_string_list_def)
next
  case (Some x)
  then show ?thesis
    using all_strings [of "case x of JArr xs \<Rightarrow> xs | _ \<Rightarrow> []"]
    by (cases x) (auto simp: formatPhoneNumbers_any_def is_string_list_def)
qed

text \<open>
  C7, amended. \<open>convertToMobZapFormat\<close> returns \<^verbatim>\<open>null\<close>, and no error, exactly for the
  category it has no case for (\<^verbatim>\<open>SCHEDULED_MESSAGE\<close>). It throws, always a TypeError,
  exactly when the \<^verbatim>\<open>phoneNumber\<close> of a message or media task is not a string or the
  \<^verbatim>\<open>phoneNumbers\<close> of a bulk task is not a list of strings; no other field is checked.
  The formatting in \<open>getTasks\<close> gives \<^verbatim>\<open>null\<close> for the same unknown category.
\<close>

theorem translate_outcomes:
  "(convertToMobZapFormat task dt = Inr None \<longleftrightarrow> t_type task = SCHEDULED_MESSAGE)
   \<and> (convertToMobZapFormat task dt = Inl e \<longleftrightarrow>
        e = TypeError \<and>
        ((t_type task = MESSAGE \<or> t_type task = MEDIA)
           \<and> \<not> is_string (d_phoneNumber (t_data task))
         \<or> t_type task = BULK_MESSAGE \<and> \<not> is_string_list (d_phoneNumbers (t_data task))))
   \<and> getTasks_format (task\<lparr>t_type := SCHEDULED_MESSAGE\<rparr>) dt = None"
proof (intro conjI)
  show "convertToMobZapFormat task dt = Inr None \<longleftrightarrow> t_type task = SCHEDULED_MESSAGE"
    by (simp add: convertToMobZapFormat_def Let_def split: TaskType.splits sum.splits)
  show "convertToMobZapFormat task dt = Inl e \<longleftrightarrow>
        e = TypeError \<and>
        ((t_type task = MESSAGE \<or> t_type task = MEDIA)
           \<and> \<not> is_string (d_phoneNumber (t_data task))
         \<or> t_type task = BULK_MESSAGE \<and> \<not> is_string_list (d_phoneNumbers (t_data task)))"
    using formatPhoneNumber_any_error [of "d_phoneNumber (t_data task)" e]
      formatPhoneNumbers_any_error [of "d_phoneNumbers (t_data task)" e]
    by (cases "t_type task")
       (auto simp: convertToMobZapFormat_def Let_def split: sum.splits)
  show "getTasks_format (task\<lparr>t_type := SCHEDULED_MESSAGE\<rparr>) dt = None"
    by (simp add: getTasks_format_def Let_def)
qed

theorem translate_outcomes_witness:
  "t_type ex_task_number = MESSAGE
   \<and> d_phoneNumber (t_data ex_task_number) = Some (JNum 5511999887766)
   \<and> convertToMobZapFormat ex_task_number NORMAL = Inl TypeError
   \<and> t_type ex_task_scheduled = SCHEDULED_MESSAGE
   \<and> convertToMobZapFormat ex_task_scheduled NORMAL = Inr None
   \<and> getTasks_format ex_task_scheduled NORMAL = None"
proof -
  have a: "t_type ex_task_number = MESSAGE"
    "d_phoneNumber (t_data ex_task_number) = Some (JNum 5511999887766)"
    "\<not> is_string (d_phoneNumber (t_data ex_task_number))"
    by code_simp+
  have b: "t_type ex_task_scheduled = SCHEDULED_MESSAGE"
    "ex_task_scheduled\<lparr>t_type := SCHEDULED_MESSAGE\<rparr> = ex_task_scheduled"
    by (simp_all add: ex_task_scheduled_def)
  from translate_outcomes [of ex_task_number NORMAL TypeError] a
  have c: "convertToMobZapFormat ex_task_number NORMAL = Inl TypeError"
    by simp
  from translate_outcomes [of ex_task_scheduled NORMAL TypeError] b
  have d: "convertToMobZapFormat ex_task_scheduled NORMAL = Inr None"
    "getTasks_format ex_task_scheduled NORMAL = None"
    by simp_all
  from a(1,2) c b(1) d show ?thesis
    by (intro conjI)
qed

end
